theory Spec2Isabelle
  imports Main "HOL-Library.AList" "HOL-Library.Sublist"
begin

section \<open>Python values held by the shared configuration\<close>

text \<open>
  \<^verbatim>\<open>zero/common/gpt2.py\<close> reads and writes \<^verbatim>\<open>CONFIG\<close>, a dict keyed by strings whose
  entries are plain Python values. A float is held as its \<^verbatim>\<open>repr\<close> (\<^verbatim>\<open>1e-2\<close> is
  \<^verbatim>\<open>0.01\<close>), which names the double. A dict is an association list in insertion order;
  \<open>map_of\<close> reads it and \<open>AList.update\<close> is \<^verbatim>\<open>d[k] = v\<close> (in place for a key that is
  there, appended otherwise). The configuration is a tree: no two entries are the same
  dict object.
\<close>

datatype pyval =
    VNone
  | VBool bool
  | VInt int
  | VFloat string
  | VStr string
  | VList "pyval list"
  | VDict "(string \<times> pyval) list"

datatype error =
    KeyError string
  | TypeError
  | ZeroDivisionError
  | OverflowError
  | AssertionError
  | IndexError
  | LibraryError string

type_synonym items = "(string \<times> pyval) list"
type_synonym config = "(string \<times> pyval) list"
type_synonym environ = "(string \<times> string) list"

text \<open>\<^verbatim>\<open>obj[k]\<close> for a string \<open>k\<close>: a dict raises KeyError on a missing key, every other
  value raises TypeError (a str or list wants an integer index, the rest are not
  subscriptable).\<close>

fun getitem :: "pyval \<Rightarrow> string \<Rightarrow> error + pyval" where
  "getitem (VDict d) k = (case map_of d k of None \<Rightarrow> Inl (KeyError k) | Some v \<Rightarrow> Inr v)"
| "getitem _ k = Inl TypeError"

text \<open>\<^verbatim>\<open>k in obj\<close> for a string \<open>k\<close>: key membership in a dict, substring test in a str,
  element test in a list; the other values are not iterable.\<close>

fun contains :: "pyval \<Rightarrow> string \<Rightarrow> error + bool" where
  "contains (VDict d) k = Inr (map_of d k \<noteq> None)"
| "contains (VStr s) k = Inr (sublist k s)"
| "contains (VList xs) k = Inr (VStr k \<in> set xs)"
| "contains _ k = Inl TypeError"

text \<open>\<^verbatim>\<open>obj[k] = v\<close> for a string \<open>k\<close>: only a dict accepts it.\<close>

fun setitem :: "pyval \<Rightarrow> string \<Rightarrow> pyval \<Rightarrow> error + pyval" where
  "setitem (VDict d) k v = Inr (VDict (AList.update k v d))"
| "setitem _ k v = Inl TypeError"

text \<open>Only lists and dicts are unhashable among these values.\<close>

fun hashable :: "pyval \<Rightarrow> bool" where
  "hashable (VList _) = False"
| "hashable (VDict _) = False"
| "hashable _ = True"

section \<open>The presets and the default hyperparameters\<close>

definition gpt2_small :: items where
  "gpt2_small =
     [(''seq_length'', VInt 1024), (''vocab_size'', VInt 50257), (''hidden_size'', VInt 768),
      (''num_heads'', VInt 12), (''depth'', VInt 12), (''checkpoint'', VBool False),
      (''evaluation'', VStr ''ppl'')]"

definition gpt2_xl :: items where
  "gpt2_xl =
     [(''seq_length'', VInt 1024), (''vocab_size'', VInt 50257), (''hidden_size'', VInt 1600),
      (''num_heads'', VInt 25), (''depth'', VInt 48), (''checkpoint'', VBool True),
      (''evaluation'', VStr ''ppl'')]"

definition gpt2_10b :: items where
  "gpt2_10b =
     [(''seq_length'', VInt 1024), (''vocab_size'', VInt 50257), (''hidden_size'', VInt 4096),
      (''num_heads'', VInt 16), (''depth'', VInt 50), (''checkpoint'', VBool True),
      (''evaluation'', VStr ''ppl'')]"

definition gpt2_configurations :: "(string \<times> items) list" where
  "gpt2_configurations =
     [(''gpt2'', gpt2_small), (''gpt2_small'', gpt2_small), (''gpt2_xl'', gpt2_xl),
      (''gpt2_10b'', gpt2_10b)]"

definition default_hyperparameters :: items where
  "default_hyperparameters =
     [(''tokenize_mode'', VStr ''concat''), (''batch_size'', VInt 4),
      (''learning_rate'', VFloat ''0.00015''),
      (''weight_decay'', VFloat ''0.01''),
      (''num_epochs'', VInt 2), (''warmup_epochs'', VInt 1), (''steps_per_epoch'', VInt 100)]"

text \<open>The key names the two kinds of record carry, in the order of the source.\<close>

definition preset_keys :: "string list" where
  "preset_keys =
     [''seq_length'', ''vocab_size'', ''hidden_size'', ''num_heads'', ''depth'',
      ''checkpoint'', ''evaluation'']"

definition hyperparameter_keys :: "string list" where
  "hyperparameter_keys =
     [''tokenize_mode'', ''batch_size'', ''learning_rate'', ''weight_decay'',
      ''num_epochs'', ''warmup_epochs'', ''steps_per_epoch'']"

section \<open>gpt2_builder\<close>

text \<open>
  The loop \<^verbatim>\<open>for k, v in items: if k not in obj: obj[k] = v\<close> of lines 188-190 and
  193-195. It returns the object as the loop leaves it, together with the exception that
  stopped it, if any.
\<close>

fun merge_absent :: "items \<Rightarrow> pyval \<Rightarrow> error option \<times> pyval" where
  "merge_absent [] obj = (None, obj)"
| "merge_absent ((k, v) # kvs) obj =
     (case contains obj k of
        Inl e \<Rightarrow> (Some e, obj)
      | Inr True \<Rightarrow> merge_absent kvs obj
      | Inr False \<Rightarrow>
          (case setitem obj k v of
             Inl e \<Rightarrow> (Some e, obj)
           | Inr obj' \<Rightarrow> merge_absent kvs obj'))"

text \<open>\<^verbatim>\<open>model_type in _gpt2_configurations\<close> followed by the lookup: hashing an unhashable
  value raises TypeError; a value that is not a string equals no key.\<close>

definition preset_of :: "pyval \<Rightarrow> error + items option" where
  "preset_of model_type =
     (if \<not> hashable model_type then Inl TypeError
      else case model_type of
             VStr name \<Rightarrow> Inr (map_of gpt2_configurations name)
           | _ \<Rightarrow> Inr None)"

datatype builder = Build_data | Build_model | Build_loss | Build_optimizer | Build_scheduler

type_synonym builders = "builder \<times> builder \<times> builder \<times> builder \<times> builder"

text \<open>Lines 186-190: read the model type and merge its preset into \<^verbatim>\<open>CONFIG['model']\<close>.\<close>

definition merge_model :: "config \<Rightarrow> error option \<times> config" where
  "merge_model CONFIG =
     (case getitem (VDict CONFIG) ''model'' of
        Inl e \<Rightarrow> (Some e, CONFIG)
      | Inr model \<Rightarrow>
     (case getitem model ''type'' of
        Inl e \<Rightarrow> (Some e, CONFIG)
      | Inr model_type \<Rightarrow>
     (case preset_of model_type of
        Inl e \<Rightarrow> (Some e, CONFIG)
      | Inr None \<Rightarrow> (None, CONFIG)
      | Inr (Some preset) \<Rightarrow>
          (case merge_absent preset model of
             (err, model') \<Rightarrow> (err, AList.update ''model'' model' CONFIG)))))"

text \<open>Lines 192-197: fill the hyperparameter section, or install the defaults as the
  section when there is none. Line 197 stores the module's own dict, not a copy; nothing in
  this file writes through that alias (a later merge finds every default key present), so
  the dict of defaults stays as it is written above.\<close>

definition merge_hyperparameters :: "config \<Rightarrow> error option \<times> config" where
  "merge_hyperparameters CONFIG =
     (case map_of CONFIG ''hyperparameter'' of
        Some section \<Rightarrow>
          (case merge_absent default_hyperparameters section of
             (err, section') \<Rightarrow> (err, AList.update ''hyperparameter'' section' CONFIG))
      | None \<Rightarrow>
          (None, AList.update ''hyperparameter'' (VDict default_hyperparameters) CONFIG))"

text \<open>Lines 199-200: \<^verbatim>\<open>os.environ[name]\<close> raises KeyError for an unset variable, before
  the assignment takes place. The environment is the list of its variables and values.\<close>

definition set_paths :: "environ \<Rightarrow> config \<Rightarrow> error option \<times> config" where
  "set_paths env CONFIG =
     (case map_of env ''DATA'' of
        None \<Rightarrow> (Some (KeyError ''DATA''), CONFIG)
      | Some data \<Rightarrow>
          let CONFIG1 = AList.update ''dataset'' (VStr data) CONFIG in
          (case map_of env ''TOKENIZER'' of
             None \<Rightarrow> (Some (KeyError ''TOKENIZER''), CONFIG1)
           | Some tok \<Rightarrow> (None, AList.update ''tokenizer'' (VStr tok) CONFIG1)))"

text \<open>The whole function: its result, and the configuration it leaves behind (also when
  it raises, since \<^verbatim>\<open>CONFIG\<close> is shared and mutated in place).\<close>

definition gpt2_builder :: "environ \<Rightarrow> config \<Rightarrow> (error + builders) \<times> config" where
  "gpt2_builder env CONFIG =
     (case merge_model CONFIG of
        (Some e, CONFIG1) \<Rightarrow> (Inl e, CONFIG1)
      | (None, CONFIG1) \<Rightarrow>
     (case merge_hyperparameters CONFIG1 of
        (Some e, CONFIG2) \<Rightarrow> (Inl e, CONFIG2)
      | (None, CONFIG2) \<Rightarrow>
     (case set_paths env CONFIG2 of
        (Some e, CONFIG3) \<Rightarrow> (Inl e, CONFIG3)
      | (None, CONFIG3) \<Rightarrow>
          (Inr (Build_data, Build_model, Build_loss, Build_optimizer, Build_scheduler),
           CONFIG3))))"

section \<open>build_scheduler\<close>

text \<open>
  \<^verbatim>\<open>epoch_steps * v\<close> for an int \<open>epoch_steps\<close>. Ints are unbounded; a bool counts as 0 or
  1; a str or a list is repeated (not at all for a count below 1); a float product is
  kept as a term, and the int is converted first, which overflows from
  \<open>2^1024 - 2^970\<close> on.
\<close>

datatype product = Exact pyval | Float_product int string

fun py_mul :: "int \<Rightarrow> pyval \<Rightarrow> error + product" where
  "py_mul n (VInt m) = Inr (Exact (VInt (n * m)))"
| "py_mul n (VBool b) = Inr (Exact (VInt (n * (if b then 1 else 0))))"
| "py_mul n (VFloat f) =
     (if 2 ^ 1024 - 2 ^ 970 \<le> \<bar>n\<bar> then Inl OverflowError else Inr (Float_product n f))"
| "py_mul n (VStr s) = Inr (Exact (VStr (concat (replicate (nat n) s))))"
| "py_mul n (VList xs) = Inr (Exact (VList (concat (replicate (nat n) xs))))"
| "py_mul n VNone = Inl TypeError"
| "py_mul n (VDict d) = Inl TypeError"

text \<open>The keyword arguments \<^verbatim>\<open>get_cosine_schedule_with_warmup\<close> is called with; the
  library function itself is a parameter.\<close>

record 'opt schedule_call =
  optimizer :: 'opt
  num_warmup_steps :: product
  num_training_steps :: product

definition build_scheduler ::
  "('opt schedule_call \<Rightarrow> error + 'sched) \<Rightarrow> config \<Rightarrow> int \<Rightarrow> 'opt \<Rightarrow> error + 'sched" where
  "build_scheduler get_cosine_schedule_with_warmup CONFIG epoch_steps opt =
     (case getitem (VDict CONFIG) ''hyperparameter'' of
        Inl e \<Rightarrow> Inl e
      | Inr hp \<Rightarrow>
     (case getitem hp ''num_epochs'' of
        Inl e \<Rightarrow> Inl e
      | Inr num_epochs \<Rightarrow>
     (case py_mul epoch_steps num_epochs of
        Inl e \<Rightarrow> Inl e
      | Inr max_steps \<Rightarrow>
     (case getitem (VDict CONFIG) ''hyperparameter'' of
        Inl e \<Rightarrow> Inl e
      | Inr hp' \<Rightarrow>
     (case getitem hp' ''warmup_epochs'' of
        Inl e \<Rightarrow> Inl e
      | Inr warmup_epochs \<Rightarrow>
     (case py_mul epoch_steps warmup_epochs of
        Inl e \<Rightarrow> Inl e
      | Inr warmup_steps \<Rightarrow>
          get_cosine_schedule_with_warmup
            \<lparr>optimizer = opt, num_warmup_steps = warmup_steps,
             num_training_steps = max_steps\<rparr>))))))"

section \<open>build_data\<close>

text \<open>
  A batch handed to \<^verbatim>\<open>tokenize\<close> is a dict of columns of strings; what a tokenizer returns
  is a dict of columns of token lists, one list for each text. The calls into
  \<^verbatim>\<open>datasets\<close>, \<^verbatim>\<open>transformers\<close> and \<^verbatim>\<open>torch\<close> are parameters, gathered in one record;
  each may raise. The imports and the progress-bar switch of lines 58-68 play no part.
\<close>

type_synonym batch = "(string \<times> string list) list"
type_synonym encoding = "(string \<times> int list list) list"

record ('ds, 'smp) loader_call =
  data :: 'ds
  shuffle :: bool
  sampler :: "'smp option"
  drop_last :: bool
  batch_size :: pyval

record ('ds, 'tok, 'smp, 'ld) library =
  load_from_disk :: "pyval \<Rightarrow> error + 'ds"
  GPT2Tokenizer :: "pyval \<Rightarrow> pyval \<Rightarrow> error + 'tok"
  tokenizer_call :: "'tok \<Rightarrow> string list \<Rightarrow> error + encoding"
  tokenizer_pad_call :: "'tok \<Rightarrow> batch \<Rightarrow> pyval \<Rightarrow> error + encoding"
  tokenizer_len :: "'tok \<Rightarrow> int"
  dataset_map :: "'ds \<Rightarrow> (batch \<Rightarrow> error + encoding) \<Rightarrow> error + 'ds"
  dataset_getitem :: "'ds \<Rightarrow> string \<Rightarrow> error + 'ds"
  get_world_size :: "error + int"
  DistributedSampler :: "'ds \<Rightarrow> bool \<Rightarrow> error + 'smp"
  DataLoader :: "('ds, 'smp) loader_call \<Rightarrow> error + 'ld"

subsection \<open>tokenize\<close>

text \<open>\<^verbatim>\<open>range(i, stop, step)\<close> from \<open>i\<close> on. A zero step (a ValueError in Python) is not
  reached by \<^verbatim>\<open>tokenize\<close>: a zero \<^verbatim>\<open>seq_len\<close> fails in the floor division before.\<close>

function py_range :: "int \<Rightarrow> int \<Rightarrow> int \<Rightarrow> int list" where
  "py_range i stop step =
     (if 0 < step \<and> i < stop then i # py_range (i + step) stop step
      else if step < 0 \<and> stop < i then i # py_range (i + step) stop step
      else [])"
  by pat_completeness auto
termination
  by (relation "measure (\<lambda>(i, stop, step). nat (if 0 < step then stop - i else i - stop))") auto

text \<open>\<^verbatim>\<open>t[i:j]\<close> for \<open>0 \<le> i\<close> and \<open>0 \<le> j\<close>, the only slices \<^verbatim>\<open>tokenize\<close> takes.\<close>

definition slice :: "'a list \<Rightarrow> int \<Rightarrow> int \<Rightarrow> 'a list" where
  "slice t i j = take (nat (j - i)) (drop (nat i) t)"

text \<open>Lines 81-82 and the range of line 85, for an int \<^verbatim>\<open>seq_len\<close>: the start index of each
  chunk.\<close>

definition chunk_starts :: "int \<Rightarrow> int \<Rightarrow> error + int list" where
  "chunk_starts total_length seq_len =
     (if seq_len \<le> total_length then
        (if seq_len = 0 then Inl ZeroDivisionError
         else Inr (py_range 0 ((total_length div seq_len) * seq_len) seq_len))
      else Inr (py_range 0 total_length seq_len))"

text \<open>Lines 81-87 for any value of \<^verbatim>\<open>seq_len\<close>. A bool counts as 0 or 1. A float passes
  the comparison and then fails: a zero in the floor division, any other in \<^verbatim>\<open>range\<close>.
  The remaining values fail in the comparison.\<close>

definition chunked :: "pyval \<Rightarrow> (string \<times> int list) list \<Rightarrow> int \<Rightarrow> error + encoding" where
  "chunked seq_len concatenated_examples total_length =
     (case seq_len of
        VInt n \<Rightarrow>
          (case chunk_starts total_length n of
             Inl e \<Rightarrow> Inl e
           | Inr starts \<Rightarrow>
               Inr (map (\<lambda>(k, t). (k, map (\<lambda>i. slice t i (i + n)) starts))
                      concatenated_examples))
      | VBool b \<Rightarrow>
          (case chunk_starts total_length (if b then 1 else 0) of
             Inl e \<Rightarrow> Inl e
           | Inr starts \<Rightarrow>
               Inr (map (\<lambda>(k, t). (k, map (\<lambda>i. slice t i (i + (if b then 1 else 0))) starts))
                      concatenated_examples))
      | VFloat f \<Rightarrow> Inl (if f = ''0.0'' \<or> f = ''-0.0'' then ZeroDivisionError else TypeError)
      | _ \<Rightarrow> Inl TypeError)"

definition tokenize ::
  "('ds, 'tok, 'smp, 'ld) library \<Rightarrow> 'tok \<Rightarrow> config \<Rightarrow> batch \<Rightarrow> pyval \<Rightarrow> error + encoding" where
  "tokenize lib tokenizer CONFIG examples mode =
     (if mode \<noteq> VStr ''concat'' \<and> mode \<noteq> VStr ''pad'' then Inl AssertionError
      else
     (case getitem (VDict CONFIG) ''model'' of
        Inl e \<Rightarrow> Inl e
      | Inr model \<Rightarrow>
     (case getitem model ''seq_length'' of
        Inl e \<Rightarrow> Inl e
      | Inr seq_len \<Rightarrow>
     (case
        (if mode = VStr ''concat'' then
           (case map_of examples ''text'' of
              None \<Rightarrow> Inl (KeyError ''text'')
            | Some texts \<Rightarrow>
           (case tokenizer_call lib tokenizer texts of
              Inl e \<Rightarrow> Inl e
            | Inr enc \<Rightarrow>
                let concatenated_examples = map (\<lambda>(k, ls). (k, concat ls)) enc in
                (case concatenated_examples of
                   [] \<Rightarrow> Inl IndexError
                 | (k0, t0) # _ \<Rightarrow> chunked seq_len concatenated_examples (int (length t0)))))
         else tokenizer_pad_call lib tokenizer examples seq_len)
      of
        Inl e \<Rightarrow> Inl e
      | Inr result \<Rightarrow>
     (case map_of result ''input_ids'' of
        None \<Rightarrow> Inl (KeyError ''input_ids'')
      | Some ids \<Rightarrow> Inr (AList.update ''labels'' ids result))))))"

subsection \<open>build_data itself\<close>

text \<open>\<^verbatim>\<open>v + tail\<close> for a string literal \<open>tail\<close>: only a str can be extended.\<close>

fun py_add_str :: "pyval \<Rightarrow> string \<Rightarrow> error + pyval" where
  "py_add_str (VStr s) tail = Inr (VStr (s @ tail))"
| "py_add_str _ tail = Inl TypeError"

text \<open>Lines 70-71: the tokenizer built from the two files under \<^verbatim>\<open>CONFIG['tokenizer']\<close>.\<close>

definition load_tokenizer :: "('ds, 'tok, 'smp, 'ld) library \<Rightarrow> config \<Rightarrow> error + 'tok" where
  "load_tokenizer lib CONFIG =
     (case getitem (VDict CONFIG) ''tokenizer'' of
        Inl e \<Rightarrow> Inl e
      | Inr dir \<Rightarrow>
     (case py_add_str dir ''/vocab.json'' of
        Inl e \<Rightarrow> Inl e
      | Inr vocab_file \<Rightarrow>
     (case getitem (VDict CONFIG) ''tokenizer'' of
        Inl e \<Rightarrow> Inl e
      | Inr dir' \<Rightarrow>
     (case py_add_str dir' ''/merges.txt'' of
        Inl e \<Rightarrow> Inl e
      | Inr merges_file \<Rightarrow> GPT2Tokenizer lib vocab_file merges_file))))"

text \<open>Lines 69-101: load the dataset and the tokenizer and map \<^verbatim>\<open>tokenize\<close> over the
  dataset. Nothing here writes to \<^verbatim>\<open>CONFIG\<close>.\<close>

definition load_and_tokenize ::
  "('ds, 'tok, 'smp, 'ld) library \<Rightarrow> config \<Rightarrow> error + 'tok \<times> 'ds" where
  "load_and_tokenize lib CONFIG =
     (case getitem (VDict CONFIG) ''dataset'' of
        Inl e \<Rightarrow> Inl e
      | Inr path \<Rightarrow>
     (case load_from_disk lib path of
        Inl e \<Rightarrow> Inl e
      | Inr dataset \<Rightarrow>
     (case load_tokenizer lib CONFIG of
        Inl e \<Rightarrow> Inl e
      | Inr tokenizer \<Rightarrow>
     (case getitem (VDict CONFIG) ''hyperparameter'' of
        Inl e \<Rightarrow> Inl e
      | Inr hp \<Rightarrow>
     (case getitem hp ''tokenize_mode'' of
        Inl e \<Rightarrow> Inl e
      | Inr mode \<Rightarrow>
     (case dataset_map lib dataset (\<lambda>examples. tokenize lib tokenizer CONFIG examples mode) of
        Inl e \<Rightarrow> Inl e
      | Inr tokenized_dataset \<Rightarrow> Inr (tokenizer, tokenized_dataset)))))))"

text \<open>Line 103: \<^verbatim>\<open>CONFIG['model']['vocab_size'] = len(tokenizer)\<close>.\<close>

definition set_vocab_size :: "int \<Rightarrow> config \<Rightarrow> error option \<times> config" where
  "set_vocab_size n CONFIG =
     (case getitem (VDict CONFIG) ''model'' of
        Inl e \<Rightarrow> (Some e, CONFIG)
      | Inr model \<Rightarrow>
     (case setitem model ''vocab_size'' (VInt n) of
        Inl e \<Rightarrow> (Some e, CONFIG)
      | Inr model' \<Rightarrow> (None, AList.update ''model'' model' CONFIG)))"

text \<open>Lines 113-122 and 123-130: one sampler and one loader over a split. The sampler is
  built only when there is more than one process. The arguments that do not vary
  (collate function, worker seed, four workers, pinned memory) are left out.\<close>

definition make_sampler ::
  "('ds, 'tok, 'smp, 'ld) library \<Rightarrow> 'ds \<Rightarrow> string \<Rightarrow> bool \<Rightarrow> int \<Rightarrow> error + 'smp option" where
  "make_sampler lib tokenized_dataset split shuffled world_size =
     (if 1 < world_size then
        (case dataset_getitem lib tokenized_dataset split of
           Inl e \<Rightarrow> Inl e
         | Inr part \<Rightarrow>
        (case DistributedSampler lib part shuffled of
           Inl e \<Rightarrow> Inl e
         | Inr s \<Rightarrow> Inr (Some s)))
      else Inr None)"

definition make_loader ::
  "('ds, 'tok, 'smp, 'ld) library \<Rightarrow> config \<Rightarrow> 'ds \<Rightarrow> string \<Rightarrow> bool \<Rightarrow> 'smp option \<Rightarrow> bool
     \<Rightarrow> error + 'ld" where
  "make_loader lib CONFIG tokenized_dataset split shuffled smp dropping =
     (case dataset_getitem lib tokenized_dataset split of
        Inl e \<Rightarrow> Inl e
      | Inr part \<Rightarrow>
     (case getitem (VDict CONFIG) ''hyperparameter'' of
        Inl e \<Rightarrow> Inl e
      | Inr hp \<Rightarrow>
     (case getitem hp ''batch_size'' of
        Inl e \<Rightarrow> Inl e
      | Inr bs \<Rightarrow>
          DataLoader lib
            \<lparr>data = part, shuffle = shuffled, sampler = smp, drop_last = dropping,
             batch_size = bs\<rparr>)))"

text \<open>Lines 105-132.\<close>

definition make_loaders ::
  "('ds, 'tok, 'smp, 'ld) library \<Rightarrow> config \<Rightarrow> 'ds \<Rightarrow> error + 'ld \<times> 'ld" where
  "make_loaders lib CONFIG tokenized_dataset =
     (case get_world_size lib of
        Inl e \<Rightarrow> Inl e
      | Inr world_size \<Rightarrow>
     (case make_sampler lib tokenized_dataset ''train'' True world_size of
        Inl e \<Rightarrow> Inl e
      | Inr train_sampler \<Rightarrow>
     (case make_loader lib CONFIG tokenized_dataset ''train'' (train_sampler = None)
             train_sampler True of
        Inl e \<Rightarrow> Inl e
      | Inr train_data \<Rightarrow>
     (case make_sampler lib tokenized_dataset ''validation'' False world_size of
        Inl e \<Rightarrow> Inl e
      | Inr test_sampler \<Rightarrow>
     (case make_loader lib CONFIG tokenized_dataset ''validation'' False test_sampler False of
        Inl e \<Rightarrow> Inl e
      | Inr test_data \<Rightarrow> Inr (train_data, test_data))))))"

text \<open>The whole function: its result, and the configuration it leaves behind.\<close>

definition build_data ::
  "('ds, 'tok, 'smp, 'ld) library \<Rightarrow> config \<Rightarrow> (error + 'ld \<times> 'ld) \<times> config" where
  "build_data lib CONFIG =
     (case load_and_tokenize lib CONFIG of
        Inl e \<Rightarrow> (Inl e, CONFIG)
      | Inr (tokenizer, tokenized_dataset) \<Rightarrow>
     (case set_vocab_size (tokenizer_len lib tokenizer) CONFIG of
        (Some e, CONFIG1) \<Rightarrow> (Inl e, CONFIG1)
      | (None, CONFIG1) \<Rightarrow> (make_loaders lib CONFIG1 tokenized_dataset, CONFIG1)))"
section \<open>Notions used to state the properties\<close>

text \<open>What the loop of \<open>merge_absent\<close> leaves of a dict: each key of the items that is
  missing is appended with the item's value, in order.\<close>

fun fill_absent :: "items \<Rightarrow> items \<Rightarrow> items" where
  "fill_absent [] d = d"
| "fill_absent ((k, v) # kvs) d =
     fill_absent kvs (if map_of d k = None then AList.update k v d else d)"

text \<open>\<^verbatim>\<open>CONFIG['model']['type']\<close> can be read and hashed: line 186 and the test of line 187
  pass.\<close>

definition has_model_type :: "config \<Rightarrow> bool" where
  "has_model_type CONFIG =
     (case map_of CONFIG ''model'' of
        Some (VDict model) \<Rightarrow>
          (case map_of model ''type'' of Some t \<Rightarrow> hashable t | None \<Rightarrow> False)
      | _ \<Rightarrow> False)"

text \<open>The hyperparameter section is a dict, or there is none.\<close>

definition hyperparameter_section_ok :: "config \<Rightarrow> bool" where
  "hyperparameter_section_ok CONFIG =
     (case map_of CONFIG ''hyperparameter'' of
        None \<Rightarrow> True
      | Some (VDict hp) \<Rightarrow> True
      | Some _ \<Rightarrow> False)"

text \<open>A stand-in for the libraries, to run the model on concrete inputs: every call
  succeeds, the tokenizer gives one token for each character and has 256 tokens, the
  dataset is one batch of two texts, there is a single process, and a loader is the
  record of the arguments it was built from. Padding is not provided.\<close>

definition toy_library :: "(unit, unit, unit, (unit, unit) loader_call) library" where
  "toy_library =
     \<lparr>load_from_disk = (\<lambda>path. Inr ()),
      GPT2Tokenizer = (\<lambda>vocab_file merges_file. Inr ()),
      tokenizer_call =
        (\<lambda>tokenizer texts.
           Inr [(''input_ids'', map (map of_char) texts),
                (''attention_mask'', map (map (\<lambda>c. 1)) texts)]),
      tokenizer_pad_call = (\<lambda>tokenizer examples max_length. Inl (LibraryError ''padding'')),
      tokenizer_len = (\<lambda>tokenizer. 256),
      dataset_map =
        (\<lambda>dataset f.
           case f [(''text'', [''ab'', ''cde''])] of Inl e \<Rightarrow> Inl e | Inr enc \<Rightarrow> Inr ()),
      dataset_getitem = (\<lambda>dataset split. Inr ()),
      get_world_size = Inr 1,
      DistributedSampler = (\<lambda>dataset shuffled. Inr ()),
      DataLoader = (\<lambda>call. Inr call)\<rparr>"

section \<open>The merge loop\<close>

lemma merge_absent_dict: "merge_absent kvs (VDict d) = (None, VDict (fill_absent kvs d))"
  by (induction kvs arbitrary: d) auto

lemma map_of_fill_absent:
  "map_of (fill_absent kvs d) k = (case map_of d k of Some v \<Rightarrow> Some v | None \<Rightarrow> map_of kvs k)"
  by (induction kvs arbitrary: d) (auto simp: update_conv' split: option.splits)

lemma fill_absent_noop:
  "\<forall>k \<in> fst ` set kvs. map_of d k \<noteq> None \<Longrightarrow> fill_absent kvs d = d"
  by (induction kvs arbitrary: d) auto

lemma fill_absent_idem: "fill_absent kvs (fill_absent kvs d) = fill_absent kvs d"
proof (rule fill_absent_noop, rule ballI)
  fix k assume "k \<in> fst ` set kvs"
  then have "map_of kvs k \<noteq> None"
    by (simp add: map_of_eq_None_iff)
  then show "map_of (fill_absent kvs d) k \<noteq> None"
    by (simp add: map_of_fill_absent split: option.splits)
qed

lemma merge_absent_not_dict:
  "\<forall>d. obj \<noteq> VDict d \<Longrightarrow> snd (merge_absent kvs obj) = obj"
  by (induction kvs) (cases obj; auto split: sum.splits bool.splits)+

section \<open>The stages of gpt2_builder\<close>

lemma merge_model_eq:
  "merge_model c =
     (case map_of c ''model'' of
        None \<Rightarrow> (Some (KeyError ''model''), c)
      | Some (VDict m) \<Rightarrow>
          (case map_of m ''type'' of
             None \<Rightarrow> (Some (KeyError ''type''), c)
           | Some t \<Rightarrow>
               (case preset_of t of
                  Inl e \<Rightarrow> (Some e, c)
                | Inr None \<Rightarrow> (None, c)
                | Inr (Some p) \<Rightarrow> (None, AList.update ''model'' (VDict (fill_absent p m)) c)))
      | Some _ \<Rightarrow> (Some TypeError, c))"
  by (auto simp: merge_model_def merge_absent_dict split: option.splits pyval.splits sum.splits)

lemma merge_absent_not_dict_pair:
  "\<forall>d. obj \<noteq> VDict d \<Longrightarrow> merge_absent kvs obj = (fst (merge_absent kvs obj), obj)"
  by (metis merge_absent_not_dict prod.collapse)

lemma merge_hyperparameters_eq:
  "merge_hyperparameters c =
     (case map_of c ''hyperparameter'' of
        None \<Rightarrow> (None, AList.update ''hyperparameter'' (VDict default_hyperparameters) c)
      | Some (VDict h) \<Rightarrow>
          (None, AList.update ''hyperparameter'' (VDict (fill_absent default_hyperparameters h)) c)
      | Some v \<Rightarrow> (fst (merge_absent default_hyperparameters v), c))"
proof (cases "map_of c ''hyperparameter''")
  case None
  then show ?thesis by (simp add: merge_hyperparameters_def)
next
  case (Some v)
  show ?thesis
  proof (cases "\<exists>h. v = VDict h")
    case True
    then show ?thesis
      using Some by (auto simp: merge_hyperparameters_def merge_absent_dict)
  next
    case False
    then obtain r where r: "merge_absent default_hyperparameters v = (r, v)"
      using merge_absent_not_dict_pair by blast
    then have "merge_hyperparameters c = (fst (merge_absent default_hyperparameters v), c)"
      using Some by (simp add: merge_hyperparameters_def update_triv)
    then show ?thesis
      using Some False by (cases v) simp_all
  qed
qed

lemma merge_model_frame: "k \<noteq> ''model'' \<Longrightarrow> map_of (snd (merge_model c)) k = map_of c k"
  by (simp add: merge_model_eq update_conv' split: option.splits pyval.splits sum.splits)

lemma merge_hyperparameters_frame:
  "k \<noteq> ''hyperparameter'' \<Longrightarrow> map_of (snd (merge_hyperparameters c)) k = map_of c k"
  by (simp add: merge_hyperparameters_eq update_conv' split: option.splits pyval.splits)

lemma set_paths_frame:
  "k \<noteq> ''dataset'' \<Longrightarrow> k \<noteq> ''tokenizer'' \<Longrightarrow> map_of (snd (set_paths env c)) k = map_of c k"
  by (simp add: set_paths_def update_conv' Let_def split: option.splits)

lemma merge_model_failed: "merge_model c = (Some e, c1) \<Longrightarrow> c1 = c"
  by (auto simp: merge_model_eq split: option.splits pyval.splits sum.splits)

lemma merge_hyperparameters_failed: "merge_hyperparameters c = (Some e, c1) \<Longrightarrow> c1 = c"
  by (auto simp: merge_hyperparameters_eq split: option.splits pyval.splits)

lemma gpt2_builder_config:
  "snd (gpt2_builder env c) =
     (case merge_model c of
        (Some e, c1) \<Rightarrow> c1
      | (None, c1) \<Rightarrow>
          (case merge_hyperparameters c1 of
             (Some e, c2) \<Rightarrow> c2
           | (None, c2) \<Rightarrow> snd (set_paths env c2)))"
  by (simp add: gpt2_builder_def split: prod.splits option.splits)

lemma merge_hyperparameters_frame':
  "merge_hyperparameters c = (r, c') \<Longrightarrow> k \<noteq> ''hyperparameter'' \<Longrightarrow> map_of c' k = map_of c k"
  using merge_hyperparameters_frame[of k c] by simp

lemma merge_model_frame':
  "merge_model c = (r, c') \<Longrightarrow> k \<noteq> ''model'' \<Longrightarrow> map_of c' k = map_of c k"
  using merge_model_frame[of k c] by simp

lemma model_after_gpt2_builder:
  "map_of (snd (gpt2_builder env c)) ''model'' = map_of (snd (merge_model c)) ''model''"
  by (auto simp: gpt2_builder_config set_paths_frame
      merge_hyperparameters_frame'[where k = "''model''", simplified]
      split: prod.splits option.splits)

section \<open>Properties of gpt2_builder\<close>

lemma known_presets:
  "name \<in> {''gpt2'', ''gpt2_small'', ''gpt2_xl'', ''gpt2_10b''} \<longleftrightarrow>
     map_of gpt2_configurations name \<noteq> None"
  by (auto simp: gpt2_configurations_def)

lemma preset_keys_of:
  "map_of gpt2_configurations name = Some preset \<Longrightarrow> map fst preset = preset_keys"
  by (auto simp: gpt2_configurations_def preset_keys_def gpt2_small_def gpt2_xl_def gpt2_10b_def
      split: if_splits)

lemma map_of_distinct_item:
  "distinct (map fst kvs) \<Longrightarrow> (k, v) \<in> set kvs \<Longrightarrow> map_of kvs k = Some v"
  by simp

lemma preset_keys_distinct: "distinct preset_keys"
  by (simp add: preset_keys_def)

text \<open>
  C1. When \<^verbatim>\<open>CONFIG['model']['type']\<close> names one of the presets \<^verbatim>\<open>gpt2\<close>, \<^verbatim>\<open>gpt2_small\<close>,
  \<^verbatim>\<open>gpt2_xl\<close>, \<^verbatim>\<open>gpt2_10b\<close>, then after gpt2_builder (whether it returns or raises
  later on) every key of that preset is in \<^verbatim>\<open>CONFIG['model']\<close>: with its prior value if it
  was there before, with the preset's value otherwise. The keys of every preset are
  \<open>preset_keys\<close>.
\<close>

theorem preset_fills_absent_model_keys:
  assumes "map_of CONFIG ''model'' = Some (VDict model)"
      and "map_of model ''type'' = Some (VStr name)"
      and "name \<in> {''gpt2'', ''gpt2_small'', ''gpt2_xl'', ''gpt2_10b''}"
  shows "\<exists>preset model'.
           map_of gpt2_configurations name = Some preset \<and>
           map fst preset = preset_keys \<and>
           map_of (snd (gpt2_builder env CONFIG)) ''model'' = Some (VDict model') \<and>
           (\<forall>(k, v) \<in> set preset.
              map_of model' k = Some (case map_of model k of Some old \<Rightarrow> old | None \<Rightarrow> v))"
proof -
  obtain preset where p: "map_of gpt2_configurations name = Some preset"
    using assms(3) known_presets by blast
  have keys: "map fst preset = preset_keys"
    using p by (rule preset_keys_of)
  have after: "map_of (snd (gpt2_builder env CONFIG)) ''model'' =
      Some (VDict (fill_absent preset model))"
    using assms(1,2) p
    by (simp add: model_after_gpt2_builder merge_model_eq preset_of_def update_conv')
  have "map_of (fill_absent preset model) k =
      Some (case map_of model k of Some old \<Rightarrow> old | None \<Rightarrow> v)"
    if "(k, v) \<in> set preset" for k v
  proof -
    have "map_of preset k = Some v"
      using that keys preset_keys_distinct by (intro map_of_distinct_item) simp_all
    then show ?thesis
      by (simp add: map_of_fill_absent split: option.splits)
  qed
  with p keys after show ?thesis by blast
qed


theorem preset_fills_absent_model_keys_witness:
  "map_of [(''model'', VDict [(''type'', VStr ''gpt2_xl''), (''depth'', VInt 3)])] ''model'' =
     Some (VDict [(''type'', VStr ''gpt2_xl''), (''depth'', VInt 3)]) \<and>
   map_of [(''type'', VStr ''gpt2_xl''), (''depth'', VInt 3)] ''type'' = Some (VStr ''gpt2_xl'') \<and>
   (\<exists>model'.
      map_of (snd (gpt2_builder []
        [(''model'', VDict [(''type'', VStr ''gpt2_xl''), (''depth'', VInt 3)])])) ''model'' =
        Some (VDict model') \<and>
      map_of model' ''depth'' = Some (VInt 3) \<and>
      map_of model' ''hidden_size'' = Some (VInt 1600))"
proof -
  let ?m = "[(''type'', VStr ''gpt2_xl''), (''depth'', VInt 3)]"
  let ?c = "[(''model'', VDict ?m)]"
  have h1: "map_of ?c ''model'' = Some (VDict ?m)" by simp
  have h2: "map_of ?m ''type'' = Some (VStr ''gpt2_xl'')" by simp
  have h3: "''gpt2_xl'' \<in> {''gpt2'', ''gpt2_small'', ''gpt2_xl'', ''gpt2_10b''}" by simp
  obtain preset model' where
    p: "map_of gpt2_configurations ''gpt2_xl'' = Some preset" and
    m: "map_of (snd (gpt2_builder [] ?c)) ''model'' = Some (VDict model')" and
    a: "\<forall>(k, v) \<in> set preset.
          map_of model' k = Some (case map_of ?m k of Some old \<Rightarrow> old | None \<Rightarrow> v)"
    using preset_fills_absent_model_keys[OF h1 h2 h3, of "[]"] by blast
  have "preset = gpt2_xl"
    using p by (simp add: gpt2_configurations_def)
  then have "(''depth'', VInt 48) \<in> set preset" "(''hidden_size'', VInt 1600) \<in> set preset"
    by (simp_all add: gpt2_xl_def)
  with a have "map_of model' ''depth'' = Some (VInt 3)"
    "map_of model' ''hidden_size'' = Some (VInt 1600)"
    by fastforce+
  with m h1 h2 show ?thesis by blast
qed

lemma hyperparameter_after_gpt2_builder:
  "map_of (snd (gpt2_builder env c)) ''hyperparameter'' =
     (case merge_model c of
        (Some e, c1) \<Rightarrow> map_of c ''hyperparameter''
      | (None, c1) \<Rightarrow> map_of (snd (merge_hyperparameters c)) ''hyperparameter'')"
proof (cases "merge_model c")
  case (Pair r c1)
  show ?thesis
  proof (cases r)
    case (Some e)
    with Pair have "c1 = c"
      using merge_model_failed by blast
    with Pair Some show ?thesis
      by (simp add: gpt2_builder_config)
  next
    case None
    have same: "map_of c1 ''hyperparameter'' = map_of c ''hyperparameter''"
      using Pair by (rule merge_model_frame') simp
    have "map_of (snd (merge_hyperparameters c1)) ''hyperparameter'' =
        map_of (snd (merge_hyperparameters c)) ''hyperparameter''"
      by (simp add: merge_hyperparameters_eq same update_conv' split: option.splits pyval.splits)
    moreover have "map_of (snd (gpt2_builder env c)) ''hyperparameter'' =
        map_of (snd (merge_hyperparameters c1)) ''hyperparameter''"
      using Pair None
      by (auto simp: gpt2_builder_config set_paths_frame split: prod.splits option.splits)
    ultimately show ?thesis
      using Pair None by simp
  qed
qed

lemma top_level_frame:
  assumes "k \<notin> {''model'', ''hyperparameter'', ''dataset'', ''tokenizer''}"
  shows "map_of (snd (gpt2_builder env c)) k = map_of c k"
proof -
  have "map_of (snd (set_paths env c2)) k = map_of c k"
    if "merge_model c = (r1, c1)" "merge_hyperparameters c1 = (r2, c2)" for r1 c1 r2 c2
    using that assms merge_model_frame'[of c r1 c1 k] merge_hyperparameters_frame'[of c1 r2 c2 k]
    by (simp add: set_paths_frame)
  moreover have "map_of c2 k = map_of c k"
    if "merge_model c = (r1, c1)" "merge_hyperparameters c1 = (r2, c2)" for r1 c1 r2 c2
    using that assms merge_model_frame'[of c r1 c1 k] merge_hyperparameters_frame'[of c1 r2 c2 k]
    by simp
  moreover have "map_of c1 k = map_of c k" if "merge_model c = (r1, c1)" for r1 c1
    using that assms merge_model_frame'[of c r1 c1 k] by simp
  ultimately show ?thesis
    by (auto simp: gpt2_builder_config split: prod.splits option.splits)
qed

lemma paths_after_return:
  assumes "fst (gpt2_builder env c) = Inr bs"
  shows "map_of (snd (gpt2_builder env c)) ''dataset'' = map_option VStr (map_of env ''DATA'') \<and>
         map_of (snd (gpt2_builder env c)) ''tokenizer'' = map_option VStr (map_of env ''TOKENIZER'')"
  using assms
  by (auto simp: gpt2_builder_def set_paths_def Let_def update_conv'
      split: prod.splits option.splits)

text \<open>
  C2, as the code has it. gpt2_builder keeps the value of every key that is already set in
  \<^verbatim>\<open>CONFIG['model']\<close> and in \<^verbatim>\<open>CONFIG['hyperparameter']\<close>, and leaves every top-level key
  other than \<^verbatim>\<open>model\<close>, \<^verbatim>\<open>hyperparameter\<close>, \<^verbatim>\<open>dataset\<close> and \<^verbatim>\<open>tokenizer\<close> as it was. The
  top-level keys \<^verbatim>\<open>dataset\<close> and \<^verbatim>\<open>tokenizer\<close> are not protected: when gpt2_builder
  returns, they hold the values of \<^verbatim>\<open>DATA\<close> and \<^verbatim>\<open>TOKENIZER\<close>, whatever was set before.
\<close>

theorem section_keys_kept_paths_overwritten:
  assumes "CONFIG' = snd (gpt2_builder env CONFIG)"
  shows "(map_of CONFIG ''model'' = Some (VDict model) \<and> map_of model k = Some v \<longrightarrow>
            (\<exists>model'. map_of CONFIG' ''model'' = Some (VDict model') \<and> map_of model' k = Some v)) \<and>
         (map_of CONFIG ''hyperparameter'' = Some (VDict hp) \<and> map_of hp kh = Some vh \<longrightarrow>
            (\<exists>hp'. map_of CONFIG' ''hyperparameter'' = Some (VDict hp') \<and> map_of hp' kh = Some vh)) \<and>
         (other \<notin> {''model'', ''hyperparameter'', ''dataset'', ''tokenizer''} \<longrightarrow>
            map_of CONFIG' other = map_of CONFIG other) \<and>
         (fst (gpt2_builder env CONFIG) = Inr bs \<longrightarrow>
            map_of CONFIG' ''dataset'' = map_option VStr (map_of env ''DATA'') \<and>
            map_of CONFIG' ''tokenizer'' = map_option VStr (map_of env ''TOKENIZER''))"
proof (intro conjI impI)
  assume "map_of CONFIG ''model'' = Some (VDict model) \<and> map_of model k = Some v"
  then show "\<exists>model'. map_of CONFIG' ''model'' = Some (VDict model') \<and> map_of model' k = Some v"
    unfolding assms model_after_gpt2_builder
    by (auto simp: merge_model_eq update_conv' map_of_fill_absent
        split: option.splits sum.splits)
next
  assume "map_of CONFIG ''hyperparameter'' = Some (VDict hp) \<and> map_of hp kh = Some vh"
  then show "\<exists>hp'. map_of CONFIG' ''hyperparameter'' = Some (VDict hp') \<and> map_of hp' kh = Some vh"
    unfolding assms hyperparameter_after_gpt2_builder
    by (auto simp: merge_hyperparameters_eq update_conv' map_of_fill_absent
        split: prod.splits option.splits)
next
  assume "other \<notin> {''model'', ''hyperparameter'', ''dataset'', ''tokenizer''}"
  then show "map_of CONFIG' other = map_of CONFIG other"
    unfolding assms by (rule top_level_frame)
next
  assume "fst (gpt2_builder env CONFIG) = Inr bs"
  then show "map_of CONFIG' ''dataset'' = map_option VStr (map_of env ''DATA'')"
    "map_of CONFIG' ''tokenizer'' = map_option VStr (map_of env ''TOKENIZER'')"
    unfolding assms using paths_after_return by blast+
qed

theorem section_keys_kept_paths_overwritten_witness:
  "(\<exists>model'.
      map_of (snd (gpt2_builder [(''DATA'', ''new''), (''TOKENIZER'', ''tok'')]
        [(''model'', VDict [(''type'', VStr ''gpt2''), (''depth'', VInt 3)]),
         (''hyperparameter'', VDict [(''batch_size'', VInt 8)]),
         (''seed'', VInt 7), (''dataset'', VStr ''old'')])) ''model'' = Some (VDict model') \<and>
      map_of model' ''depth'' = Some (VInt 3)) \<and>
   (\<exists>hp'.
      map_of (snd (gpt2_builder [(''DATA'', ''new''), (''TOKENIZER'', ''tok'')]
        [(''model'', VDict [(''type'', VStr ''gpt2''), (''depth'', VInt 3)]),
         (''hyperparameter'', VDict [(''batch_size'', VInt 8)]),
         (''seed'', VInt 7), (''dataset'', VStr ''old'')])) ''hyperparameter'' = Some (VDict hp') \<and>
      map_of hp' ''batch_size'' = Some (VInt 8)) \<and>
   map_of (snd (gpt2_builder [(''DATA'', ''new''), (''TOKENIZER'', ''tok'')]
        [(''model'', VDict [(''type'', VStr ''gpt2''), (''depth'', VInt 3)]),
         (''hyperparameter'', VDict [(''batch_size'', VInt 8)]),
         (''seed'', VInt 7), (''dataset'', VStr ''old'')])) ''seed'' = Some (VInt 7) \<and>
   map_of (snd (gpt2_builder [(''DATA'', ''new''), (''TOKENIZER'', ''tok'')]
        [(''model'', VDict [(''type'', VStr ''gpt2''), (''depth'', VInt 3)]),
         (''hyperparameter'', VDict [(''batch_size'', VInt 8)]),
         (''seed'', VInt 7), (''dataset'', VStr ''old'')])) ''dataset'' = Some (VStr ''new'') \<and>
   map_of (snd (gpt2_builder [(''DATA'', ''new''), (''TOKENIZER'', ''tok'')]
        [(''model'', VDict [(''type'', VStr ''gpt2''), (''depth'', VInt 3)]),
         (''hyperparameter'', VDict [(''batch_size'', VInt 8)]),
         (''seed'', VInt 7), (''dataset'', VStr ''old'')])) ''tokenizer'' = Some (VStr ''tok'')"
proof -
  let ?e = "[(''DATA'', ''new''), (''TOKENIZER'', ''tok'')]"
  let ?m = "[(''type'', VStr ''gpt2''), (''depth'', VInt 3)]"
  let ?h = "[(''batch_size'', VInt 8)]"
  let ?c = "[(''model'', VDict ?m), (''hyperparameter'', VDict ?h),
             (''seed'', VInt 7), (''dataset'', VStr ''old'')]"
  let ?bs = "(Build_data, Build_model, Build_loss, Build_optimizer, Build_scheduler)"
  have r: "fst (gpt2_builder ?e ?c) = Inr ?bs"
    by code_simp
  show ?thesis
    using section_keys_kept_paths_overwritten[OF refl, of ?c ?m "''depth''" "VInt 3" ?e
        ?h "''batch_size''" "VInt 8" "''seed''" ?bs] r
    by simp
qed

text \<open>The claim as it was stated fails for \<^verbatim>\<open>dataset\<close>: a value set before the call is
  replaced by the value of \<^verbatim>\<open>DATA\<close>.\<close>

theorem dataset_overwritten_counterexample:
  "map_of [(''model'', VDict [(''type'', VStr ''gpt2'')]), (''dataset'', VStr ''old'')] ''dataset'' =
     Some (VStr ''old'') \<and>
   map_of (snd (gpt2_builder [(''DATA'', ''new''), (''TOKENIZER'', ''tok'')]
     [(''model'', VDict [(''type'', VStr ''gpt2'')]), (''dataset'', VStr ''old'')])) ''dataset'' =
     Some (VStr ''new'')"
  by code_simp

text \<open>
  C3. When the value under \<^verbatim>\<open>CONFIG['model']['type']\<close> is not one of the preset names
  \<^verbatim>\<open>gpt2\<close>, \<^verbatim>\<open>gpt2_small\<close>, \<^verbatim>\<open>gpt2_xl\<close>, \<^verbatim>\<open>gpt2_10b\<close>, gpt2_builder leaves
  \<^verbatim>\<open>CONFIG['model']\<close> exactly as it was: no key added, none changed.
\<close>

theorem unknown_type_leaves_model:
  assumes "map_of CONFIG ''model'' = Some (VDict model)"
      and "map_of model ''type'' = Some t"
      and "t \<notin> VStr ` {''gpt2'', ''gpt2_small'', ''gpt2_xl'', ''gpt2_10b''}"
  shows "map_of (snd (gpt2_builder env CONFIG)) ''model'' = Some (VDict model)"
proof -
  have "preset_of t = Inl TypeError \<or> preset_of t = Inr None"
  proof (cases t)
    case (VStr name)
    then have "name \<notin> {''gpt2'', ''gpt2_small'', ''gpt2_xl'', ''gpt2_10b''}"
      using assms(3) by blast
    then have "map_of gpt2_configurations name = None"
      using known_presets by blast
    then show ?thesis
      using VStr by (simp add: preset_of_def)
  qed (simp_all add: preset_of_def)
  then show ?thesis
    using assms(1,2) by (auto simp: model_after_gpt2_builder merge_model_eq simp del: map_of.simps)
qed

theorem unknown_type_leaves_model_witness:
  "VStr ''gpt3'' \<notin> VStr ` {''gpt2'', ''gpt2_small'', ''gpt2_xl'', ''gpt2_10b''} \<and>
   map_of (snd (gpt2_builder [(''DATA'', ''d''), (''TOKENIZER'', ''t'')]
     [(''model'', VDict [(''type'', VStr ''gpt3''), (''depth'', VInt 3)])])) ''model'' =
     Some (VDict [(''type'', VStr ''gpt3''), (''depth'', VInt 3)])"
proof -
  have h: "VStr ''gpt3'' \<notin> VStr ` {''gpt2'', ''gpt2_small'', ''gpt2_xl'', ''gpt2_10b''}"
    by simp
  show ?thesis
    using h unknown_type_leaves_model[of "[(''model'', VDict [(''type'', VStr ''gpt3''), (''depth'', VInt 3)])]"
        "[(''type'', VStr ''gpt3''), (''depth'', VInt 3)]" "VStr ''gpt3''"
        "[(''DATA'', ''d''), (''TOKENIZER'', ''t'')]"]
    by simp
qed

lemma has_model_type_merge:
  assumes "has_model_type c"
  shows "\<exists>c1. merge_model c = (None, c1)"
  using assms
  by (auto simp: has_model_type_def merge_model_eq preset_of_def
      split: option.splits pyval.splits)

lemma hyperparameter_keys_of: "map fst default_hyperparameters = hyperparameter_keys"
  by (simp add: default_hyperparameters_def hyperparameter_keys_def)

lemma hyperparameter_keys_distinct: "distinct hyperparameter_keys"
  by (simp add: hyperparameter_keys_def)

text \<open>
  C4. Once \<^verbatim>\<open>CONFIG['model']['type']\<close> has been read, gpt2_builder leaves every default
  hyperparameter key in \<^verbatim>\<open>CONFIG['hyperparameter']\<close>: a key of the section that was
  present keeps its value, an absent one gets the default, and a section that was absent
  becomes the full default record. The default keys are \<open>hyperparameter_keys\<close>.
\<close>

theorem defaults_fill_absent_hyperparameters:
  assumes "has_model_type CONFIG"
      and "CONFIG' = snd (gpt2_builder env CONFIG)"
  shows "map fst default_hyperparameters = hyperparameter_keys \<and>
         (map_of CONFIG ''hyperparameter'' = None \<longrightarrow>
            map_of CONFIG' ''hyperparameter'' = Some (VDict default_hyperparameters)) \<and>
         (map_of CONFIG ''hyperparameter'' = Some (VDict hp) \<longrightarrow>
            (\<exists>hp'. map_of CONFIG' ''hyperparameter'' = Some (VDict hp') \<and>
               (\<forall>(k, v) \<in> set default_hyperparameters.
                  map_of hp' k = Some (case map_of hp k of Some old \<Rightarrow> old | None \<Rightarrow> v))))"
proof -
  obtain c1 where c1: "merge_model CONFIG = (None, c1)"
    using assms(1) has_model_type_merge by blast
  then have after: "map_of CONFIG' ''hyperparameter'' =
      map_of (snd (merge_hyperparameters CONFIG)) ''hyperparameter''"
    by (simp add: assms(2) hyperparameter_after_gpt2_builder)
  have absent: "map_of CONFIG' ''hyperparameter'' = Some (VDict default_hyperparameters)"
    if "map_of CONFIG ''hyperparameter'' = None"
    using that by (simp add: after merge_hyperparameters_eq update_conv')
  have present: "map_of CONFIG' ''hyperparameter'' =
      Some (VDict (fill_absent default_hyperparameters hp))"
    if "map_of CONFIG ''hyperparameter'' = Some (VDict hp)"
    using that by (simp add: after merge_hyperparameters_eq update_conv')
  have filled: "map_of (fill_absent default_hyperparameters hp) k =
      Some (case map_of hp k of Some old \<Rightarrow> old | None \<Rightarrow> v)"
    if "(k, v) \<in> set default_hyperparameters" for k v
  proof -
    have "map_of default_hyperparameters k = Some v"
      using that hyperparameter_keys_of hyperparameter_keys_distinct
      by (intro map_of_distinct_item) simp_all
    then show ?thesis
      by (simp add: map_of_fill_absent split: option.splits)
  qed
  show ?thesis
    using hyperparameter_keys_of absent present filled by blast
qed

theorem defaults_fill_absent_hyperparameters_witness:
  "has_model_type
     [(''model'', VDict [(''type'', VStr ''gpt2'')]),
      (''hyperparameter'', VDict [(''batch_size'', VInt 8)])] \<and>
   (\<exists>hp'.
      map_of (snd (gpt2_builder []
        [(''model'', VDict [(''type'', VStr ''gpt2'')]),
         (''hyperparameter'', VDict [(''batch_size'', VInt 8)])])) ''hyperparameter'' =
        Some (VDict hp') \<and>
      map_of hp' ''batch_size'' = Some (VInt 8) \<and>
      map_of hp' ''num_epochs'' = Some (VInt 2)) \<and>
   has_model_type [(''model'', VDict [(''type'', VStr ''gpt2'')])] \<and>
   map_of (snd (gpt2_builder [] [(''model'', VDict [(''type'', VStr ''gpt2'')])]))
     ''hyperparameter'' = Some (VDict default_hyperparameters)"
proof -
  let ?h = "[(''batch_size'', VInt 8)]"
  let ?c = "[(''model'', VDict [(''type'', VStr ''gpt2'')]), (''hyperparameter'', VDict ?h)]"
  let ?d = "[(''model'', VDict [(''type'', VStr ''gpt2'')])]"
  have h1: "has_model_type ?c" and h2: "has_model_type ?d"
    by (simp_all add: has_model_type_def)
  obtain hp' where
    m: "map_of (snd (gpt2_builder [] ?c)) ''hyperparameter'' = Some (VDict hp')" and
    a: "\<forall>(k, v) \<in> set default_hyperparameters.
          map_of hp' k = Some (case map_of ?h k of Some old \<Rightarrow> old | None \<Rightarrow> v)"
    using defaults_fill_absent_hyperparameters[OF h1 refl, where hp = ?h and env = "[]"] by auto
  have "(''batch_size'', VInt 4) \<in> set default_hyperparameters"
    "(''num_epochs'', VInt 2) \<in> set default_hyperparameters"
    by (simp_all add: default_hyperparameters_def)
  with a have "map_of hp' ''batch_size'' = Some (VInt 8)" "map_of hp' ''num_epochs'' = Some (VInt 2)"
    by fastforce+
  moreover have "map_of (snd (gpt2_builder [] ?d)) ''hyperparameter'' =
      Some (VDict default_hyperparameters)"
    using defaults_fill_absent_hyperparameters[OF h2 refl, where env = "[]"] by simp
  ultimately show ?thesis
    using m h1 h2 by blast
qed

lemma set_paths_failed:
  assumes "map_of env ''DATA'' = None \<or> map_of env ''TOKENIZER'' = None"
  shows "fst (set_paths env c) =
           Some (KeyError (if map_of env ''DATA'' = None then ''DATA'' else ''TOKENIZER''))"
    and "map_of (snd (set_paths env c)) ''tokenizer'' = map_of c ''tokenizer''"
    and "map_of env ''DATA'' = None \<Longrightarrow> snd (set_paths env c) = c"
  using assms by (auto simp: set_paths_def Let_def update_conv' split: option.splits)

lemma hyperparameter_section_ok_merge:
  assumes "hyperparameter_section_ok c"
  shows "\<exists>c2. merge_hyperparameters c = (None, c2)"
  using assms
  by (auto simp: hyperparameter_section_ok_def merge_hyperparameters_eq
      split: option.splits pyval.splits)

lemma hyperparameter_section_ok_after_model:
  assumes "merge_model c = (r, c1)"
  shows "hyperparameter_section_ok c1 = hyperparameter_section_ok c"
  using merge_model_frame'[OF assms, of "''hyperparameter''"]
  by (simp add: hyperparameter_section_ok_def)

lemma gpt2_builder_reaches_paths:
  assumes "has_model_type c" and "hyperparameter_section_ok c"
  shows "\<exists>c2. gpt2_builder env c =
           (case set_paths env c2 of
              (Some e, c3) \<Rightarrow> (Inl e, c3)
            | (None, c3) \<Rightarrow>
                (Inr (Build_data, Build_model, Build_loss, Build_optimizer, Build_scheduler), c3)) \<and>
           map_of c2 ''dataset'' = map_of c ''dataset'' \<and>
           map_of c2 ''tokenizer'' = map_of c ''tokenizer''"
proof -
  obtain c1 where c1: "merge_model c = (None, c1)"
    using assms(1) has_model_type_merge by blast
  then have "hyperparameter_section_ok c1"
    using assms(2) hyperparameter_section_ok_after_model by blast
  then obtain c2 where c2: "merge_hyperparameters c1 = (None, c2)"
    using hyperparameter_section_ok_merge by blast
  have "map_of c2 ''dataset'' = map_of c ''dataset''" "map_of c2 ''tokenizer'' = map_of c ''tokenizer''"
    using merge_model_frame'[OF c1] merge_hyperparameters_frame'[OF c2] by simp_all
  then show ?thesis
    using c1 c2 by (auto simp: gpt2_builder_def)
qed

lemma gpt2_builder_fails_without_paths:
  assumes "map_of env ''DATA'' = None \<or> map_of env ''TOKENIZER'' = None"
  shows "\<exists>e. fst (gpt2_builder env c) = Inl e"
proof -
  obtain r1 c1 where c1: "merge_model c = (r1, c1)"
    by (cases "merge_model c")
  obtain r2 c2 where c2: "merge_hyperparameters c1 = (r2, c2)"
    by (cases "merge_hyperparameters c1")
  obtain e c3 where c3: "set_paths env c2 = (Some e, c3)"
    using set_paths_failed(1)[OF assms, of c2] by (metis prod.collapse)
  show ?thesis
    using c1 c2 c3 by (cases r1; cases r2) (simp_all add: gpt2_builder_def)
qed

lemma tokenizer_kept_without_paths:
  assumes "map_of env ''DATA'' = None \<or> map_of env ''TOKENIZER'' = None"
  shows "map_of (snd (gpt2_builder env c)) ''tokenizer'' = map_of c ''tokenizer''"
proof -
  have "map_of c1 ''tokenizer'' = map_of c ''tokenizer''" if "merge_model c = (r1, c1)" for r1 c1
    using merge_model_frame'[OF that] by simp
  moreover have "map_of c2 ''tokenizer'' = map_of c1 ''tokenizer''"
    if "merge_hyperparameters c1 = (r2, c2)" for r2 c1 c2
    using merge_hyperparameters_frame'[OF that] by simp
  ultimately show ?thesis
    using set_paths_failed(2)[OF assms]
    by (auto simp: gpt2_builder_config split: prod.splits option.splits)
qed

lemma dataset_kept_without_DATA:
  assumes "map_of env ''DATA'' = None"
  shows "map_of (snd (gpt2_builder env c)) ''dataset'' = map_of c ''dataset''"
proof -
  have "map_of c1 ''dataset'' = map_of c ''dataset''" if "merge_model c = (r1, c1)" for r1 c1
    using merge_model_frame'[OF that] by simp
  moreover have "map_of c2 ''dataset'' = map_of c1 ''dataset''"
    if "merge_hyperparameters c1 = (r2, c2)" for r2 c1 c2
    using merge_hyperparameters_frame'[OF that] by simp
  moreover have "snd (set_paths env c2) = c2" for c2
    using set_paths_failed(3) assms by blast
  ultimately show ?thesis
    by (auto simp: gpt2_builder_config split: prod.splits option.splits)
qed

text \<open>
  C5. If \<^verbatim>\<open>DATA\<close> or \<^verbatim>\<open>TOKENIZER\<close> is unset, gpt2_builder raises instead of returning the
  builder functions, whatever the configuration; \<^verbatim>\<open>CONFIG['tokenizer']\<close> is then never
  assigned, nor is \<^verbatim>\<open>CONFIG['dataset']\<close> when \<^verbatim>\<open>DATA\<close> is the unset one. For a configuration
  whose model type can be read and whose hyperparameter section is a dict or absent, the
  exception is the KeyError of the first unset variable.
\<close>

theorem unset_variable_fails:
  assumes "map_of env ''DATA'' = None \<or> map_of env ''TOKENIZER'' = None"
  shows "(\<exists>e. fst (gpt2_builder env CONFIG) = Inl e) \<and>
         map_of (snd (gpt2_builder env CONFIG)) ''tokenizer'' = map_of CONFIG ''tokenizer'' \<and>
         (map_of env ''DATA'' = None \<longrightarrow>
            map_of (snd (gpt2_builder env CONFIG)) ''dataset'' = map_of CONFIG ''dataset'') \<and>
         (has_model_type CONFIG \<and> hyperparameter_section_ok CONFIG \<longrightarrow>
            fst (gpt2_builder env CONFIG) =
              Inl (KeyError (if map_of env ''DATA'' = None then ''DATA'' else ''TOKENIZER'')))"
proof -
  have "fst (gpt2_builder env CONFIG) =
      Inl (KeyError (if map_of env ''DATA'' = None then ''DATA'' else ''TOKENIZER''))"
    if hm: "has_model_type CONFIG" and ho: "hyperparameter_section_ok CONFIG"
  proof -
    obtain c2 where c2: "gpt2_builder env CONFIG =
        (case set_paths env c2 of
           (Some e, c3) \<Rightarrow> (Inl e, c3)
         | (None, c3) \<Rightarrow>
             (Inr (Build_data, Build_model, Build_loss, Build_optimizer, Build_scheduler), c3))"
      using gpt2_builder_reaches_paths[OF hm ho] by blast
    obtain c3 where "set_paths env c2 =
        (Some (KeyError (if map_of env ''DATA'' = None then ''DATA'' else ''TOKENIZER'')), c3)"
      using set_paths_failed(1)[OF assms, of c2] by (metis prod.collapse)
    then show ?thesis
      using c2 by simp
  qed
  then show ?thesis
    using gpt2_builder_fails_without_paths[OF assms] tokenizer_kept_without_paths[OF assms]
      dataset_kept_without_DATA
    by blast
qed

theorem unset_variable_fails_witness:
  "(map_of [(''DATA'', ''/data/wiki'')] ''DATA'' = None \<or>
    map_of [(''DATA'', ''/data/wiki'')] ''TOKENIZER'' = None) \<and>
   has_model_type [(''model'', VDict [(''type'', VStr ''gpt2'')]), (''tokenizer'', VStr ''old'')] \<and>
   hyperparameter_section_ok
     [(''model'', VDict [(''type'', VStr ''gpt2'')]), (''tokenizer'', VStr ''old'')] \<and>
   fst (gpt2_builder [(''DATA'', ''/data/wiki'')]
     [(''model'', VDict [(''type'', VStr ''gpt2'')]), (''tokenizer'', VStr ''old'')]) =
     Inl (KeyError ''TOKENIZER'') \<and>
   map_of (snd (gpt2_builder [(''DATA'', ''/data/wiki'')]
     [(''model'', VDict [(''type'', VStr ''gpt2'')]), (''tokenizer'', VStr ''old'')])) ''tokenizer'' =
     Some (VStr ''old'')"
proof -
  let ?e = "[(''DATA'', ''/data/wiki'')]"
  let ?c = "[(''model'', VDict [(''type'', VStr ''gpt2'')]), (''tokenizer'', VStr ''old'')]"
  have h: "map_of ?e ''DATA'' = None \<or> map_of ?e ''TOKENIZER'' = None"
    by simp
  have w: "has_model_type ?c" "hyperparameter_section_ok ?c"
    by (simp_all add: has_model_type_def hyperparameter_section_ok_def)
  show ?thesis
    using h w unset_variable_fails[OF h, of ?c] by simp
qed

text \<open>
  C6. When \<^verbatim>\<open>DATA\<close> and \<^verbatim>\<open>TOKENIZER\<close> are both set, and the model type can be read and the
  hyperparameter section is a dict or absent, gpt2_builder returns the five builder
  functions and leaves \<^verbatim>\<open>CONFIG['dataset']\<close> equal to the value of \<^verbatim>\<open>DATA\<close> and
  \<^verbatim>\<open>CONFIG['tokenizer']\<close> equal to the value of \<^verbatim>\<open>TOKENIZER\<close>.
\<close>

theorem set_variables_return_builders:
  assumes "map_of env ''DATA'' = Some data_path"
      and "map_of env ''TOKENIZER'' = Some tok"
      and "has_model_type CONFIG"
      and "hyperparameter_section_ok CONFIG"
  shows "fst (gpt2_builder env CONFIG) =
           Inr (Build_data, Build_model, Build_loss, Build_optimizer, Build_scheduler) \<and>
         map_of (snd (gpt2_builder env CONFIG)) ''dataset'' = Some (VStr data_path) \<and>
         map_of (snd (gpt2_builder env CONFIG)) ''tokenizer'' = Some (VStr tok)"
proof -
  obtain c2 where c2: "gpt2_builder env CONFIG =
      (case set_paths env c2 of
         (Some e, c3) \<Rightarrow> (Inl e, c3)
       | (None, c3) \<Rightarrow>
           (Inr (Build_data, Build_model, Build_loss, Build_optimizer, Build_scheduler), c3))"
    using gpt2_builder_reaches_paths[OF assms(3,4)] by blast
  have "set_paths env c2 =
      (None, AList.update ''tokenizer'' (VStr tok) (AList.update ''dataset'' (VStr data_path) c2))"
    using assms(1,2) by (simp add: set_paths_def)
  then show ?thesis
    using c2 by (simp add: update_conv')
qed

theorem set_variables_return_builders_witness:
  "map_of [(''DATA'', ''/data/wiki''), (''TOKENIZER'', ''/data/tok'')] ''DATA'' = Some ''/data/wiki'' \<and>
   map_of [(''DATA'', ''/data/wiki''), (''TOKENIZER'', ''/data/tok'')] ''TOKENIZER'' =
     Some ''/data/tok'' \<and>
   has_model_type [(''model'', VDict [(''type'', VStr ''gpt2_10b'')])] \<and>
   hyperparameter_section_ok [(''model'', VDict [(''type'', VStr ''gpt2_10b'')])] \<and>
   fst (gpt2_builder [(''DATA'', ''/data/wiki''), (''TOKENIZER'', ''/data/tok'')]
     [(''model'', VDict [(''type'', VStr ''gpt2_10b'')])]) =
     Inr (Build_data, Build_model, Build_loss, Build_optimizer, Build_scheduler) \<and>
   map_of (snd (gpt2_builder [(''DATA'', ''/data/wiki''), (''TOKENIZER'', ''/data/tok'')]
     [(''model'', VDict [(''type'', VStr ''gpt2_10b'')])])) ''dataset'' = Some (VStr ''/data/wiki'') \<and>
   map_of (snd (gpt2_builder [(''DATA'', ''/data/wiki''), (''TOKENIZER'', ''/data/tok'')]
     [(''model'', VDict [(''type'', VStr ''gpt2_10b'')])])) ''tokenizer'' = Some (VStr ''/data/tok'')"
proof -
  let ?e = "[(''DATA'', ''/data/wiki''), (''TOKENIZER'', ''/data/tok'')]"
  let ?c = "[(''model'', VDict [(''type'', VStr ''gpt2_10b'')])]"
  have h1: "map_of ?e ''DATA'' = Some ''/data/wiki''"
    and h2: "map_of ?e ''TOKENIZER'' = Some ''/data/tok''"
    by simp_all
  have h3: "has_model_type ?c" and h4: "hyperparameter_section_ok ?c"
    by (simp_all add: has_model_type_def hyperparameter_section_ok_def)
  show ?thesis
    using h1 h2 h3 h4 set_variables_return_builders[OF h1 h2 h3 h4] by simp
qed

lemma merge_model_stable:
  assumes "merge_model c = (None, c1)"
      and "map_of c' ''model'' = map_of c1 ''model''"
  shows "merge_model c' = (None, c')"
proof -
  obtain m t where m: "map_of c ''model'' = Some (VDict m)" and t: "map_of m ''type'' = Some t"
    using assms(1) by (auto simp: merge_model_eq split: option.splits pyval.splits)
  consider (unknown) "preset_of t = Inr None" "c1 = c"
    | (known) p where "preset_of t = Inr (Some p)"
        "c1 = AList.update ''model'' (VDict (fill_absent p m)) c"
    using assms(1) m t by (auto simp: merge_model_eq split: option.splits sum.splits)
  then show ?thesis
  proof cases
    case unknown
    then have "map_of c' ''model'' = Some (VDict m)"
      using assms(2) m by simp
    then show ?thesis
      using t unknown(1) by (simp add: merge_model_eq)
  next
    case known
    then have c': "map_of c' ''model'' = Some (VDict (fill_absent p m))"
      using assms(2) by (simp add: update_conv')
    have "map_of (fill_absent p m) ''type'' = Some t"
      using t by (simp add: map_of_fill_absent)
    then have "merge_model c' =
        (None, AList.update ''model'' (VDict (fill_absent p (fill_absent p m))) c')"
      using c' known(1) by (simp add: merge_model_eq)
    then show ?thesis
      using c' by (simp add: fill_absent_idem update_triv)
  qed
qed

lemma fill_absent_self: "fill_absent kvs kvs = kvs"
  by (rule fill_absent_noop) (simp add: map_of_eq_None_iff)

lemma merge_hyperparameters_stable:
  assumes "merge_hyperparameters c1 = (r, c2)"
      and "map_of c' ''hyperparameter'' = map_of c2 ''hyperparameter''"
  shows "merge_hyperparameters c' = (r, c')"
proof (cases "map_of c1 ''hyperparameter''")
  case None
  then have "r = None" "c2 = AList.update ''hyperparameter'' (VDict default_hyperparameters) c1"
    using assms(1) by (simp_all add: merge_hyperparameters_eq)
  then have "map_of c' ''hyperparameter'' = Some (VDict default_hyperparameters)"
    using assms(2) by (simp add: update_conv')
  then show ?thesis
    using \<open>r = None\<close> by (simp add: merge_hyperparameters_eq fill_absent_self update_triv)
next
  case (Some v)
  show ?thesis
  proof (cases "\<exists>h. v = VDict h")
    case True
    then obtain h where h: "v = VDict h" by blast
    then have "r = None"
      "c2 = AList.update ''hyperparameter'' (VDict (fill_absent default_hyperparameters h)) c1"
      using assms(1) Some by (simp_all add: merge_hyperparameters_eq)
    then have "map_of c' ''hyperparameter'' =
        Some (VDict (fill_absent default_hyperparameters h))"
      using assms(2) by (simp add: update_conv')
    then show ?thesis
      using \<open>r = None\<close> by (simp add: merge_hyperparameters_eq fill_absent_idem update_triv)
  next
    case False
    then have eq: "merge_hyperparameters c1 = (fst (merge_absent default_hyperparameters v), c1)"
      using Some by (cases v) (simp_all add: merge_hyperparameters_eq)
    then have "map_of c' ''hyperparameter'' = Some v"
      using assms Some by simp
    then have "merge_hyperparameters c' = (fst (merge_absent default_hyperparameters v), c')"
      using False by (cases v) (simp_all add: merge_hyperparameters_eq)
    then show ?thesis
      using eq assms(1) by simp
  qed
qed

lemma set_paths_stable:
  assumes "set_paths env c2 = (r, c3)"
  shows "set_paths env c3 = (r, c3)"
proof (cases "map_of env ''DATA''")
  case None
  then show ?thesis
    using assms by (simp add: set_paths_def)
next
  case data: (Some d)
  show ?thesis
  proof (cases "map_of env ''TOKENIZER''")
    case None
    then have "r = Some (KeyError ''TOKENIZER'')" "c3 = AList.update ''dataset'' (VStr d) c2"
      using assms data by (simp_all add: set_paths_def)
    then show ?thesis
      using data None by (simp add: set_paths_def)
  next
    case (Some t)
    then have r: "r = None"
      and c3: "c3 = AList.update ''tokenizer'' (VStr t) (AList.update ''dataset'' (VStr d) c2)"
      using assms data by (simp_all add: set_paths_def)
    have "map_of c3 ''dataset'' = Some (VStr d)" "map_of c3 ''tokenizer'' = Some (VStr t)"
      by (simp_all add: c3 update_conv')
    then have "AList.update ''tokenizer'' (VStr t) (AList.update ''dataset'' (VStr d) c3) = c3"
      by (simp add: update_triv)
    then show ?thesis
      using data Some r by (simp add: set_paths_def)
  qed
qed

lemma gpt2_builder_again:
  "gpt2_builder env (snd (gpt2_builder env c)) = gpt2_builder env c"
proof -
  obtain r1 c1 where c1: "merge_model c = (r1, c1)"
    by (cases "merge_model c")
  show ?thesis
  proof (cases r1)
    case (Some e)
    then have "c1 = c"
      using c1 merge_model_failed by blast
    then have "gpt2_builder env c = (Inl e, c)"
      using c1 Some by (simp add: gpt2_builder_def)
    then show ?thesis by simp
  next
    case None
    obtain r2 c2 where c2: "merge_hyperparameters c1 = (r2, c2)"
      by (cases "merge_hyperparameters c1")
    have m2: "map_of c2 ''model'' = map_of c1 ''model''"
      using merge_hyperparameters_frame'[OF c2] by simp
    show ?thesis
    proof (cases r2)
      case (Some e)
      then have "c2 = c1"
        using c2 merge_hyperparameters_failed by blast
      then have b: "gpt2_builder env c = (Inl e, c1)"
        using c1 c2 None Some by (simp add: gpt2_builder_def)
      have "merge_model c1 = (None, c1)"
        using merge_model_stable c1 None by blast
      moreover have "merge_hyperparameters c1 = (Some e, c1)"
        using c2 Some \<open>c2 = c1\<close> by simp
      ultimately have "gpt2_builder env c1 = (Inl e, c1)"
        by (simp add: gpt2_builder_def)
      then show ?thesis
        using b by simp
    next
      case hyper: None
      obtain r3 c3 where c3: "set_paths env c2 = (r3, c3)"
        by (cases "set_paths env c2")
      have b: "gpt2_builder env c =
          (case r3 of Some e \<Rightarrow> Inl e
           | None \<Rightarrow> Inr (Build_data, Build_model, Build_loss, Build_optimizer, Build_scheduler),
           c3)"
        using c1 c2 c3 None hyper by (cases r3) (simp_all add: gpt2_builder_def)
      have "map_of c3 ''model'' = map_of c2 ''model''"
        "map_of c3 ''hyperparameter'' = map_of c2 ''hyperparameter''"
        using set_paths_frame[of "''model''" env c2] set_paths_frame[of "''hyperparameter''" env c2] c3
        by simp_all
      then have "merge_model c3 = (None, c3)" "merge_hyperparameters c3 = (None, c3)"
        using merge_model_stable[OF c1[unfolded None]] m2
          merge_hyperparameters_stable[OF c2[unfolded hyper]]
        by simp_all
      moreover have "set_paths env c3 = (r3, c3)"
        using c3 by (rule set_paths_stable)
      ultimately have "gpt2_builder env c3 =
          (case r3 of Some e \<Rightarrow> Inl e
           | None \<Rightarrow> Inr (Build_data, Build_model, Build_loss, Build_optimizer, Build_scheduler),
           c3)"
        by (cases r3) (simp_all add: gpt2_builder_def)
      then show ?thesis
        using b by simp
    qed
  qed
qed

text \<open>
  C8. With the environment fixed, a second run of gpt2_builder leaves \<^verbatim>\<open>CONFIG\<close> exactly as
  the first run left it. This holds for every starting configuration, in particular for
  those that contain \<^verbatim>\<open>CONFIG['model']['type']\<close>, and whether the runs return or raise.
\<close>

theorem gpt2_builder_idempotent:
  "snd (gpt2_builder env (snd (gpt2_builder env CONFIG))) = snd (gpt2_builder env CONFIG)"
  by (simp add: gpt2_builder_again)

theorem gpt2_builder_idempotent_witness:
  "snd (gpt2_builder [(''DATA'', ''/data/wiki''), (''TOKENIZER'', ''/data/tok'')]
     (snd (gpt2_builder [(''DATA'', ''/data/wiki''), (''TOKENIZER'', ''/data/tok'')]
        [(''model'', VDict [(''type'', VStr ''gpt2_xl''), (''depth'', VInt 3)])]))) =
   snd (gpt2_builder [(''DATA'', ''/data/wiki''), (''TOKENIZER'', ''/data/tok'')]
     [(''model'', VDict [(''type'', VStr ''gpt2_xl''), (''depth'', VInt 3)])])"
  by (rule gpt2_builder_idempotent)

section \<open>Properties of build_scheduler\<close>

text \<open>
  C7. For every int \<open>epoch_steps\<close>, build_scheduler calls
  \<^verbatim>\<open>get_cosine_schedule_with_warmup\<close> with \<^verbatim>\<open>num_warmup_steps\<close> the product of \<open>epoch_steps\<close>
  and \<^verbatim>\<open>CONFIG['hyperparameter']['warmup_epochs']\<close> and with \<^verbatim>\<open>num_training_steps\<close> the
  product of \<open>epoch_steps\<close> and \<^verbatim>\<open>CONFIG['hyperparameter']['num_epochs']\<close>, and returns what
  that call returns. The product is Python's \<^verbatim>\<open>*\<close>; for an int factor it is the integer
  product.
\<close>

theorem scheduler_steps_are_products:
  assumes "map_of CONFIG ''hyperparameter'' = Some (VDict hp)"
      and "map_of hp ''num_epochs'' = Some num_epochs"
      and "map_of hp ''warmup_epochs'' = Some warmup_epochs"
      and "py_mul epoch_steps num_epochs = Inr max_steps"
      and "py_mul epoch_steps warmup_epochs = Inr warmup_steps"
  shows "build_scheduler get_cosine_schedule_with_warmup CONFIG epoch_steps opt =
           get_cosine_schedule_with_warmup
             \<lparr>optimizer = opt, num_warmup_steps = warmup_steps, num_training_steps = max_steps\<rparr> \<and>
         (\<forall>n. num_epochs = VInt n \<longrightarrow> max_steps = Exact (VInt (epoch_steps * n))) \<and>
         (\<forall>w. warmup_epochs = VInt w \<longrightarrow> warmup_steps = Exact (VInt (epoch_steps * w)))"
  using assms by (auto simp: build_scheduler_def)

theorem scheduler_steps_are_products_witness:
  "py_mul 100 (VInt 2) = Inr (Exact (VInt 200)) \<and>
   py_mul 100 (VInt 1) = Inr (Exact (VInt 100)) \<and>
   build_scheduler Inr [(''hyperparameter'', VDict default_hyperparameters)] 100 ''adam'' =
     Inr \<lparr>optimizer = ''adam'', num_warmup_steps = Exact (VInt 100),
          num_training_steps = Exact (VInt 200)\<rparr>"
proof -
  have h1: "map_of [(''hyperparameter'', VDict default_hyperparameters)] ''hyperparameter'' =
      Some (VDict default_hyperparameters)"
    by simp
  have h2: "map_of default_hyperparameters ''num_epochs'' = Some (VInt 2)"
    and h3: "map_of default_hyperparameters ''warmup_epochs'' = Some (VInt 1)"
    by (simp_all add: default_hyperparameters_def)
  have h4: "py_mul 100 (VInt 2) = Inr (Exact (VInt 200))"
    and h5: "py_mul 100 (VInt 1) = Inr (Exact (VInt 100))"
    by simp_all
  have "build_scheduler Inr [(''hyperparameter'', VDict default_hyperparameters)] 100 ''adam'' =
      Inr \<lparr>optimizer = ''adam'', num_warmup_steps = Exact (VInt 100),
           num_training_steps = Exact (VInt 200)\<rparr>"
    using scheduler_steps_are_products[OF h1 h2 h3 h4 h5,
        where get_cosine_schedule_with_warmup = Inr and opt = "''adam''"]
    by (rule conjunct1)
  with h4 h5 show ?thesis
    by (intro conjI)
qed

section \<open>Properties of build_data\<close>

declare py_range.simps [simp del]

lemma load_and_tokenize_tokenizer:
  assumes "load_and_tokenize lib c = Inr (tokenizer, tokenized_dataset)"
  shows "load_tokenizer lib c = Inr tokenizer"
  using assms by (auto simp: load_and_tokenize_def split: sum.splits)

text \<open>
  C9. When build_data gets as far as line 103 (dataset and tokenizer loaded, dataset
  tokenized), it sets \<^verbatim>\<open>CONFIG['model']['vocab_size']\<close> to the length of the loaded
  tokenizer, whatever was there before and with no test for an existing value, and leaves
  every other key of \<^verbatim>\<open>CONFIG['model']\<close> as it was. This is the state build_data leaves
  behind whether the loaders are then built or not.
\<close>

theorem build_data_sets_vocab_size:
  assumes "load_and_tokenize lib CONFIG = Inr (tokenizer, tokenized_dataset)"
      and "map_of CONFIG ''model'' = Some (VDict model)"
  shows "load_tokenizer lib CONFIG = Inr tokenizer \<and>
         (\<exists>model'.
            map_of (snd (build_data lib CONFIG)) ''model'' = Some (VDict model') \<and>
            map_of model' ''vocab_size'' = Some (VInt (tokenizer_len lib tokenizer)) \<and>
            (\<forall>k. k \<noteq> ''vocab_size'' \<longrightarrow> map_of model' k = map_of model k))"
proof -
  let ?model' = "AList.update ''vocab_size'' (VInt (tokenizer_len lib tokenizer)) model"
  have "set_vocab_size (tokenizer_len lib tokenizer) CONFIG =
      (None, AList.update ''model'' (VDict ?model') CONFIG)"
    using assms(2) by (simp add: set_vocab_size_def)
  then have "snd (build_data lib CONFIG) = AList.update ''model'' (VDict ?model') CONFIG"
    using assms(1) by (simp add: build_data_def)
  then have "map_of (snd (build_data lib CONFIG)) ''model'' = Some (VDict ?model')"
    by (simp add: update_conv')
  moreover have "map_of ?model' ''vocab_size'' = Some (VInt (tokenizer_len lib tokenizer))"
    by (simp add: update_conv')
  moreover have "\<forall>k. k \<noteq> ''vocab_size'' \<longrightarrow> map_of ?model' k = map_of model k"
    by (simp add: update_conv')
  ultimately show ?thesis
    using load_and_tokenize_tokenizer[OF assms(1)] by blast
qed

theorem build_data_sets_vocab_size_witness:
  "load_and_tokenize toy_library
     [(''model'', VDict [(''type'', VStr ''gpt2''), (''seq_length'', VInt 4),
                         (''vocab_size'', VInt 50257)]),
      (''hyperparameter'', VDict default_hyperparameters),
      (''dataset'', VStr ''/data/wiki''), (''tokenizer'', VStr ''/data/tok'')] = Inr ((), ()) \<and>
   (\<exists>model'.
      map_of (snd (build_data toy_library
        [(''model'', VDict [(''type'', VStr ''gpt2''), (''seq_length'', VInt 4),
                            (''vocab_size'', VInt 50257)]),
         (''hyperparameter'', VDict default_hyperparameters),
         (''dataset'', VStr ''/data/wiki''), (''tokenizer'', VStr ''/data/tok'')])) ''model'' =
        Some (VDict model') \<and>
      map_of model' ''vocab_size'' = Some (VInt 256) \<and>
      map_of model' ''seq_length'' = Some (VInt 4))"
proof -
  let ?m = "[(''type'', VStr ''gpt2''), (''seq_length'', VInt 4), (''vocab_size'', VInt 50257)]"
  let ?c = "[(''model'', VDict ?m), (''hyperparameter'', VDict default_hyperparameters),
             (''dataset'', VStr ''/data/wiki''), (''tokenizer'', VStr ''/data/tok'')]"
  have h1: "load_and_tokenize toy_library ?c = Inr ((), ())"
    by code_simp
  have h2: "map_of ?c ''model'' = Some (VDict ?m)"
    by simp
  have len: "tokenizer_len toy_library () = 256"
    by (simp add: toy_library_def)
  obtain model' where
    m: "map_of (snd (build_data toy_library ?c)) ''model'' = Some (VDict model')" and
    v: "map_of model' ''vocab_size'' = Some (VInt (tokenizer_len toy_library ()))" and
    o: "\<forall>k. k \<noteq> ''vocab_size'' \<longrightarrow> map_of model' k = map_of ?m k"
    using build_data_sets_vocab_size[OF h1 h2] by blast
  have "map_of model' ''seq_length'' = map_of ?m ''seq_length''"
    using o by simp
  then have "map_of model' ''seq_length'' = Some (VInt 4)"
    by simp
  then show ?thesis
    using h1 m v len by auto
qed

subsection \<open>tokenize in concat mode\<close>

lemma py_range_multiples:
  assumes "0 < n"
  shows "py_range (int (j * n)) (int (q * n)) (int n) = map (\<lambda>i. int (i * n)) [j..<q]"
proof (induction "q - j" arbitrary: j)
  case 0
  then have "q * n \<le> j * n"
    by simp
  then have "\<not> int (j * n) < int (q * n)"
    by linarith
  then have "py_range (int (j * n)) (int (q * n)) (int n) = []"
    using assms by (subst py_range.simps) simp
  then show ?case
    using 0 by simp
next
  case (Suc d)
  then have jq: "j < q"
    by simp
  then have "int (j * n) < int (q * n)"
    using assms by simp
  then have "py_range (int (j * n)) (int (q * n)) (int n) =
      int (j * n) # py_range (int (j * n) + int n) (int (q * n)) (int n)"
    using assms by (subst py_range.simps) simp
  moreover have "int (j * n) + int n = int (Suc j * n)"
    by simp
  moreover have "py_range (int (Suc j * n)) (int (q * n)) (int n) =
      map (\<lambda>i. int (i * n)) [Suc j..<q]"
  proof (rule Suc.hyps(1))
    show "d = q - Suc j"
      using Suc.hyps(2) by simp
  qed
  ultimately have "py_range (int (j * n)) (int (q * n)) (int n) =
      int (j * n) # map (\<lambda>i. int (i * n)) [Suc j..<q]"
    by (simp only:)
  then show ?case
    using jq by (simp add: upt_conv_Cons)
qed

lemma chunk_starts_full:
  assumes "0 < n" and "n \<le> len"
  shows "chunk_starts (int len) (int n) = Inr (map (\<lambda>i. int (i * n)) [0..<len div n])"
proof -
  have "int len div int n * int n = int (len div n * n)"
    by (simp add: zdiv_int)
  moreover have "py_range (int (0 * n)) (int (len div n * n)) (int n) =
      map (\<lambda>i. int (i * n)) [0..<len div n]"
    using assms(1) by (rule py_range_multiples)
  ultimately show ?thesis
    using assms by (simp add: chunk_starts_def)
qed

lemma chunk_starts_short:
  assumes "0 < len" and "len < n"
  shows "chunk_starts (int len) (int n) = Inr [0]"
proof -
  have "py_range (int n) (int len) (int n) = []"
    using assms by (subst py_range.simps) simp
  then have "py_range 0 (int len) (int n) = [0]"
    using assms by (subst py_range.simps) simp
  then show ?thesis
    using assms by (simp add: chunk_starts_def)
qed

lemma chunk_starts_none:
  assumes "0 < n"
  shows "chunk_starts 0 (int n) = Inr []"
proof -
  have "py_range 0 0 (int n) = []"
    by (subst py_range.simps) simp
  then show ?thesis
    using assms by (simp add: chunk_starts_def)
qed

lemma slice_chunk: "slice t (int (i * n)) (int (i * n) + int n) = take n (drop (i * n) t)"
proof -
  have "nat (int (i * n)) = i * n"
    by (rule nat_int)
  then show ?thesis
    unfolding slice_def by (simp del: of_nat_mult)
qed

lemma concat_chunks_take:
  "q * n \<le> length t \<Longrightarrow> concat (map (\<lambda>i. take n (drop (i * n) t)) [0..<q]) = take (q * n) t"
proof (induction q)
  case 0
  then show ?case by simp
next
  case (Suc q)
  then have "concat (map (\<lambda>i. take n (drop (i * n) t)) [0..<q]) = take (q * n) t"
    by simp
  then have "concat (map (\<lambda>i. take n (drop (i * n) t)) [0..<Suc q]) =
      take (q * n) t @ take n (drop (q * n) t)"
    by simp
  also have "\<dots> = take (q * n + n) t"
    by (simp add: take_add)
  finally show ?case
    by (simp add: add.commute)
qed

lemma chunk_length:
  assumes "q * n \<le> length t" and "i < q"
  shows "length (take n (drop (i * n) t)) = n"
proof -
  have "Suc i * n \<le> q * n"
    using assms(2) by (intro mult_le_mono1) simp
  then have "i * n + n \<le> length t"
    using assms(1) by simp
  then show ?thesis
    by simp
qed

lemma map_of_map_values:
  "map_of (map (\<lambda>(k, v). (k, f v)) xs) k = map_option f (map_of xs k)"
  by (induction xs) auto

lemma tokenize_concat:
  assumes "map_of CONFIG ''model'' = Some (VDict model)"
      and "map_of model ''seq_length'' = Some (VInt (int n))"
      and "map_of examples ''text'' = Some texts"
      and "tokenizer_call lib tokenizer texts = Inr ((k0, ls0) # enc)"
      and "chunk_starts (int (length (concat ls0))) (int n) = Inr starts"
      and "map_of ((k0, ls0) # enc) ''input_ids'' = Some ids"
  shows "tokenize lib tokenizer CONFIG examples (VStr ''concat'') =
           Inr (AList.update ''labels''
                  (map (\<lambda>i. slice (concat ids) i (i + int n)) starts)
                  (map (\<lambda>(k, ls). (k, map (\<lambda>i. slice (concat ls) i (i + int n)) starts))
                     ((k0, ls0) # enc)))"
proof -
  let ?chunks = "\<lambda>t. map (\<lambda>i. slice t i (i + int n)) starts"
  let ?cs = "map (\<lambda>(k, ls). (k, concat ls)) ((k0, ls0) # enc)"
  have cs: "?cs = (k0, concat ls0) # map (\<lambda>(k, ls). (k, concat ls)) enc"
    by simp
  have res: "map (\<lambda>(k, t). (k, ?chunks t)) ?cs =
      map (\<lambda>(k, ls). (k, ?chunks (concat ls))) ((k0, ls0) # enc)"
    by (simp add: case_prod_unfold)
  have ch: "chunked (VInt (int n)) ?cs (int (length (concat ls0))) =
      Inr (map (\<lambda>(k, ls). (k, ?chunks (concat ls))) ((k0, ls0) # enc))"
    unfolding chunked_def using assms(5) res by simp
  have ids: "map_of (map (\<lambda>(k, ls). (k, ?chunks (concat ls))) ((k0, ls0) # enc)) ''input_ids'' =
      Some (?chunks (concat ids))"
    using assms(6) map_of_map_values[of "\<lambda>ls. ?chunks (concat ls)" "(k0, ls0) # enc" "''input_ids''"]
    by simp
  show ?thesis
    unfolding tokenize_def using assms(1-4) ch ids cs
    by (simp del: map_of.simps list.map add: Let_def)
qed

lemma tokenize_concat_column:
  assumes "map_of CONFIG ''model'' = Some (VDict model)"
      and "map_of model ''seq_length'' = Some (VInt (int n))"
      and "map_of examples ''text'' = Some texts"
      and "tokenizer_call lib tokenizer texts = Inr ((k0, ls0) # enc)"
      and "chunk_starts (int (length (concat ls0))) (int n) = Inr starts"
      and "map_of ((k0, ls0) # enc) ''input_ids'' = Some ids"
      and "map_of ((k0, ls0) # enc) k = Some ls"
      and "k \<noteq> ''labels''"
  shows "\<exists>result.
           tokenize lib tokenizer CONFIG examples (VStr ''concat'') = Inr result \<and>
           map_of result k = Some (map (\<lambda>i. slice (concat ls) i (i + int n)) starts) \<and>
           map_of result ''labels'' = map_of result ''input_ids''"
proof -
  let ?chunks = "\<lambda>ls. map (\<lambda>i. slice (concat ls) i (i + int n)) starts"
  let ?base = "map (\<lambda>(k, ls). (k, ?chunks ls)) ((k0, ls0) # enc)"
  let ?r = "AList.update ''labels'' (?chunks ids) ?base"
  have r: "tokenize lib tokenizer CONFIG examples (VStr ''concat'') = Inr ?r"
    using assms(1-6) by (rule tokenize_concat)
  have col: "map_of ?base k = Some (?chunks ls)" and inp: "map_of ?base ''input_ids'' = Some (?chunks ids)"
    by (simp_all only: map_of_map_values assms(6,7) option.map)
  have "map_of ?r k = Some (?chunks ls)"
    using col assms(8) by (simp add: update_conv' del: map_of.simps list.map)
  moreover have "map_of ?r ''labels'' = map_of ?r ''input_ids''"
    using inp by (simp add: update_conv' del: map_of.simps list.map)
  ultimately show ?thesis
    using r by blast
qed

text \<open>
  C10, as the code has it. In concat mode with a positive \<^verbatim>\<open>seq_length\<close>, for the input ids
  and every other column of the tokenizer's output with the same token count: when the
  count is at least \<^verbatim>\<open>seq_length\<close>, tokenize returns chunks of exactly \<^verbatim>\<open>seq_length\<close> tokens
  each, which together are the tokens up to the largest multiple of \<^verbatim>\<open>seq_length\<close>, the
  rest being dropped; when the count is positive and below \<^verbatim>\<open>seq_length\<close>, it returns one
  chunk, all the tokens; when the count is zero, it returns no chunk. The labels are the
  chunks of the input ids.
\<close>

theorem concat_mode_chunks:
  assumes "map_of CONFIG ''model'' = Some (VDict model)"
      and "map_of model ''seq_length'' = Some (VInt (int seq_len))"
      and "0 < seq_len"
      and "map_of examples ''text'' = Some texts"
      and "tokenizer_call lib tokenizer texts = Inr ((k0, ls0) # enc)"
      and "map_of ((k0, ls0) # enc) ''input_ids'' = Some ids"
      and "map_of ((k0, ls0) # enc) k = Some ls"
      and "k \<noteq> ''labels''"
      and "length (concat ls) = length (concat ls0)"
  shows "\<exists>result chunks.
           tokenize lib tokenizer CONFIG examples (VStr ''concat'') = Inr result \<and>
           map_of result k = Some chunks \<and>
           map_of result ''labels'' = map_of result ''input_ids'' \<and>
           (seq_len \<le> length (concat ls) \<longrightarrow>
              (\<forall>c \<in> set chunks. length c = seq_len) \<and>
              length chunks = length (concat ls) div seq_len \<and>
              concat chunks = take (length (concat ls) div seq_len * seq_len) (concat ls)) \<and>
           (0 < length (concat ls) \<and> length (concat ls) < seq_len \<longrightarrow> chunks = [concat ls]) \<and>
           (length (concat ls) = 0 \<longrightarrow> chunks = [])"
proof -
  let ?t = "concat ls"
  let ?len = "length ?t"
  let ?q = "?len div seq_len"
  consider (full) "seq_len \<le> ?len" | (short) "0 < ?len" "?len < seq_len" | (none) "?len = 0"
    by linarith
  then show ?thesis
  proof cases
    case full
    let ?starts = "map (\<lambda>i. int (i * seq_len)) [0..<?q]"
    let ?chunks = "map (\<lambda>i. take seq_len (drop (i * seq_len) ?t)) [0..<?q]"
    have "chunk_starts (int (length (concat ls0))) (int seq_len) = Inr ?starts"
      using assms(3,9) full chunk_starts_full[of seq_len ?len] by simp
    then obtain result where
      r: "tokenize lib tokenizer CONFIG examples (VStr ''concat'') = Inr result" and
      c: "map_of result k = Some (map (\<lambda>i. slice ?t i (i + int seq_len)) ?starts)" and
      l: "map_of result ''labels'' = map_of result ''input_ids''"
      using tokenize_concat_column[OF assms(1,2,4,5) _ assms(6,7,8)] by blast
    have "map (\<lambda>i. slice ?t i (i + int seq_len)) ?starts = ?chunks"
      by (simp add: slice_chunk comp_def del: of_nat_mult)
    then have c': "map_of result k = Some ?chunks"
      using c by simp
    have fits: "?q * seq_len \<le> ?len"
      by simp
    have "\<forall>c \<in> set ?chunks. length c = seq_len"
      using chunk_length[OF fits] by auto
    moreover have "length ?chunks = ?q"
      by simp
    moreover have "concat ?chunks = take (?q * seq_len) ?t"
      using fits by (rule concat_chunks_take)
    moreover have "\<not> (0 < ?len \<and> ?len < seq_len)" "?len \<noteq> 0"
      using full assms(3) by linarith+
    ultimately show ?thesis
      using r c' l by blast
  next
    case short
    have "chunk_starts (int (length (concat ls0))) (int seq_len) = Inr [0]"
      using assms(9) short chunk_starts_short[of ?len seq_len] by simp
    then obtain result where
      r: "tokenize lib tokenizer CONFIG examples (VStr ''concat'') = Inr result" and
      c: "map_of result k = Some (map (\<lambda>i. slice ?t i (i + int seq_len)) [0])" and
      l: "map_of result ''labels'' = map_of result ''input_ids''"
      using tokenize_concat_column[OF assms(1,2,4,5) _ assms(6,7,8)] by blast
    have "map (\<lambda>i. slice ?t i (i + int seq_len)) [0] = [?t]"
      using short by (simp add: slice_def)
    then have "map_of result k = Some [?t]"
      using c by simp
    moreover have "\<not> seq_len \<le> ?len" "?len \<noteq> 0"
      using short by linarith+
    ultimately show ?thesis
      using r l by blast
  next
    case none
    have "int (length (concat ls0)) = 0"
      using assms(9) none by simp
    then have "chunk_starts (int (length (concat ls0))) (int seq_len) = Inr []"
      using chunk_starts_none[OF assms(3)] by (simp only:)
    then obtain result where
      r: "tokenize lib tokenizer CONFIG examples (VStr ''concat'') = Inr result" and
      c: "map_of result k = Some (map (\<lambda>i. slice ?t i (i + int seq_len)) [])" and
      l: "map_of result ''labels'' = map_of result ''input_ids''"
      using tokenize_concat_column[OF assms(1,2,4,5) _ assms(6,7,8)] by blast
    then have "map_of result k = Some []"
      by simp
    moreover have "\<not> seq_len \<le> ?len" "\<not> (0 < ?len \<and> ?len < seq_len)"
      using none assms(3) by linarith+
    ultimately show ?thesis
      using r l by blast
  qed
qed

text \<open>The claim as it was stated fails for a batch without tokens, such as a single empty
  text: its token count is below \<^verbatim>\<open>seq_length\<close>, and tokenize returns no chunk at all.\<close>

theorem no_tokens_no_chunk_counterexample:
  "tokenizer_call toy_library () [[]] =
     Inr [(''input_ids'', [[]]), (''attention_mask'', [[]])] \<and>
   tokenize toy_library () [(''model'', VDict [(''seq_length'', VInt 1024)])]
     [(''text'', [[]])] (VStr ''concat'') =
     Inr [(''input_ids'', []), (''attention_mask'', []), (''labels'', [])]"
  by code_simp

theorem concat_mode_chunks_witness:
  "(\<exists>result chunks.
      tokenize toy_library () [(''model'', VDict [(''seq_length'', VInt 2)])]
        [(''text'', [''ab'', ''cde''])] (VStr ''concat'') = Inr result \<and>
      map_of result ''input_ids'' = Some chunks \<and>
      length chunks = 2 \<and> concat chunks = [97, 98, 99, 100]) \<and>
   (\<exists>result.
      tokenize toy_library () [(''model'', VDict [(''seq_length'', VInt 7)])]
        [(''text'', [''ab'', ''cde''])] (VStr ''concat'') = Inr result \<and>
      map_of result ''input_ids'' = Some [[97, 98, 99, 100, 101]]) \<and>
   (\<exists>result.
      tokenize toy_library () [(''model'', VDict [(''seq_length'', VInt 7)])]
        [(''text'', [[]])] (VStr ''concat'') = Inr result \<and>
      map_of result ''input_ids'' = Some [])"
proof -
  let ?texts = "[''ab'', ''cde'']"
  let ?ids = "[[97, 98], [99, 100, 101 :: int]]"
  let ?enc = "[(''attention_mask'', [[1, 1], [1, 1, 1 :: int]])]"
  let ?none = "[(''attention_mask'', [[] :: int list])]"
  have t: "tokenizer_call toy_library () ?texts = Inr ((''input_ids'', ?ids) # ?enc)"
    and t0: "tokenizer_call toy_library () [[]] = Inr ((''input_ids'', [[]]) # ?none)"
    by (simp_all add: toy_library_def)
  have m2: "map_of [(''seq_length'', VInt 2)] ''seq_length'' = Some (VInt (int 2))"
    and m7: "map_of [(''seq_length'', VInt 7)] ''seq_length'' = Some (VInt (int 7))"
    by simp_all
  have pos: "0 < (2 :: nat)" "0 < (7 :: nat)"
    by simp_all
  have l: "''input_ids'' \<noteq> ''labels''"
    by simp
  have c2: "map_of [(''model'', VDict [(''seq_length'', VInt 2)])] ''model'' =
      Some (VDict [(''seq_length'', VInt 2)])"
    and c7: "map_of [(''model'', VDict [(''seq_length'', VInt 7)])] ''model'' =
      Some (VDict [(''seq_length'', VInt 7)])"
    by simp_all
  have x: "map_of [(''text'', ?texts)] ''text'' = Some ?texts"
    and x0: "map_of [(''text'', [[] :: string])] ''text'' = Some [[]]"
    by simp_all
  have i: "map_of ((''input_ids'', ?ids) # ?enc) ''input_ids'' = Some ?ids"
    and i0: "map_of ((''input_ids'', [[]]) # ?none) ''input_ids'' = Some [[]]"
    by simp_all
  have len: "length (concat ?ids) = 5" "length (concat [[] :: int list]) = 0"
    by simp_all
  obtain r1 chunks where
    "tokenize toy_library () [(''model'', VDict [(''seq_length'', VInt 2)])]
       [(''text'', ?texts)] (VStr ''concat'') = Inr r1"
    "map_of r1 ''input_ids'' = Some chunks"
    "2 \<le> length (concat ?ids) \<longrightarrow>
       (\<forall>c \<in> set chunks. length c = 2) \<and>
       length chunks = length (concat ?ids) div 2 \<and>
       concat chunks = take (length (concat ?ids) div 2 * 2) (concat ?ids)"
    using concat_mode_chunks[OF c2 m2 pos(1) x t i i l refl] by blast
  then have first: "\<exists>result chunks.
      tokenize toy_library () [(''model'', VDict [(''seq_length'', VInt 2)])]
        [(''text'', ?texts)] (VStr ''concat'') = Inr result \<and>
      map_of result ''input_ids'' = Some chunks \<and>
      length chunks = 2 \<and> concat chunks = [97, 98, 99, 100]"
    by (intro exI[of _ r1] exI[of _ chunks]) (simp add: len)
  obtain r2 chunks2 where
    "tokenize toy_library () [(''model'', VDict [(''seq_length'', VInt 7)])]
       [(''text'', ?texts)] (VStr ''concat'') = Inr r2"
    "map_of r2 ''input_ids'' = Some chunks2"
    "0 < length (concat ?ids) \<and> length (concat ?ids) < 7 \<longrightarrow> chunks2 = [concat ?ids]"
    using concat_mode_chunks[OF c7 m7 pos(2) x t i i l refl] by blast
  then have second: "\<exists>result.
      tokenize toy_library () [(''model'', VDict [(''seq_length'', VInt 7)])]
        [(''text'', ?texts)] (VStr ''concat'') = Inr result \<and>
      map_of result ''input_ids'' = Some [[97, 98, 99, 100, 101]]"
    by (intro exI[of _ r2]) (simp add: len)
  obtain r3 chunks3 where
    "tokenize toy_library () [(''model'', VDict [(''seq_length'', VInt 7)])]
       [(''text'', [[]])] (VStr ''concat'') = Inr r3"
    "map_of r3 ''input_ids'' = Some chunks3"
    "length (concat [[] :: int list]) = 0 \<longrightarrow> chunks3 = []"
    using concat_mode_chunks[OF c7 m7 pos(2) x0 t0 i0 i0 l refl] by blast
  then have third: "\<exists>result.
      tokenize toy_library () [(''model'', VDict [(''seq_length'', VInt 7)])]
        [(''text'', [[]])] (VStr ''concat'') = Inr result \<and>
      map_of result ''input_ids'' = Some []"
    by (intro exI[of _ r3]) simp
  show ?thesis
    using first second third by (intro conjI)
qed

end
